theory Spec2Isabelle
  imports Main "HOL-Library.AList" "HOL-Library.Char_ord" "HOL-Library.List_Lexorder"
    "HOL-Library.Product_Lexorder"
begin

section \<open>JSON values\<close>

text \<open>
  Tool arguments and activity payloads are JSON values. A JavaScript string is modelled
  as a \<^typ>\<open>string\<close> whose elements stand for the code units that \<open>.length\<close>
  counts; numbers are carried as integers (no rule below inspects a number's value,
  only that it is a number or that it is zero). An object is an association list;
  a key is looked up with \<^const>\<open>map_of\<close>, and a missing key reads as
  \<open>undefined\<close>, which is \<^const>\<open>None\<close> at type \<open>json option\<close>.
\<close>

datatype json =
    JNull
  | JBool bool
  | JNum int
  | JStr string
  | JArr "json list"
  | JObj "(string \<times> json) list"

section \<open>The schema library used by \<open>src/mcp/server.ts\<close>\<close>

text \<open>
  The schemas of \<open>server.ts\<close> are values built with \<open>z.string()\<close>,
  \<open>z.array()\<close>, \<open>z.object()\<close>, \<open>.nullable()\<close>, \<open>.optional()\<close>,
  \<open>.passthrough()\<close> and \<open>.refine()\<close> of the zod library; \<open>safeParse\<close> interprets
  them. The interpreter below follows the library (version 3, whose default messages
  it uses where the schema gives none): a parse returns a status, and every issue
  found is appended to one shared list. A wrong type aborts the value it occurs in
  (\<open>Aborted\<close>), a failed length check only marks it \<open>Dirty\<close>; a container is aborted
  when one of its parts is, but all parts are parsed first, so all their issues are
  recorded. A refinement runs only when the refined value was not aborted.
\<close>

datatype status = Valid | Dirty | Aborted

datatype zcheck = Min nat string | Max nat string

datatype unknownKeys = Strip | Passthrough

datatype schema =
    ZString "zcheck list"
  | ZArray schema "(nat \<times> string) option" "(nat \<times> string) option"
  | ZObject "(string \<times> schema) list" unknownKeys
  | ZNullable schema
  | ZOptional schema
  | ZRefine schema "json \<Rightarrow> bool" string

type_synonym parsed = "status \<times> string list \<times> json option"

fun received :: "json option \<Rightarrow> string" where
  "received None = ''undefined''"
| "received (Some JNull) = ''null''"
| "received (Some (JBool _)) = ''boolean''"
| "received (Some (JNum _)) = ''number''"
| "received (Some (JStr _)) = ''string''"
| "received (Some (JArr _)) = ''array''"
| "received (Some (JObj _)) = ''object''"

text \<open>The library's default message for a value of the wrong type.\<close>

definition invalid_type :: "string \<Rightarrow> json option \<Rightarrow> string" where
  "invalid_type expected v =
     (if v = None then ''Required''
      else ''Expected '' @ expected @ '', received '' @ received v)"

fun run_check :: "string \<Rightarrow> zcheck \<Rightarrow> string list" where
  "run_check s (Min n msg) = (if length s < n then [msg] else [])"
| "run_check s (Max n msg) = (if length s > n then [msg] else [])"

definition merge_status :: "status \<Rightarrow> status list \<Rightarrow> status" where
  "merge_status own parts =
     (if Aborted \<in> set parts then Aborted
      else if own = Dirty \<or> Dirty \<in> set parts then Dirty
      else Valid)"

text \<open>
  The output object of \<open>z.object\<close>: a key of the shape is set when its parsed value
  is defined (a key that is present in a JSON input never holds \<open>undefined\<close>); with
  \<open>passthrough\<close> the input's other keys follow, unparsed; the default drops them.
\<close>

definition object_value ::
  "(string \<times> json) list \<Rightarrow> (string \<times> parsed) list \<Rightarrow> unknownKeys \<Rightarrow> json" where
  "object_value kvs pairs mode =
     JObj (concat (map (\<lambda>p. case snd (snd (snd p)) of Some v \<Rightarrow> [(fst p, v)] | None \<Rightarrow> []) pairs)
           @ (case mode of
                Strip \<Rightarrow> []
              | Passthrough \<Rightarrow> filter (\<lambda>kv. fst kv \<notin> fst ` set pairs) kvs))"

definition array_value :: "parsed list \<Rightarrow> json" where
  "array_value results =
     JArr (concat (map (\<lambda>r. case snd (snd r) of Some y \<Rightarrow> [y] | None \<Rightarrow> []) results))"

fun parse :: "schema \<Rightarrow> json option \<Rightarrow> parsed" where
  "parse (ZString checks) v =
     (case v of
        Some (JStr s) \<Rightarrow>
          (let issues = concat (map (run_check s) checks)
           in (if issues = [] then Valid else Dirty, issues, Some (JStr s)))
      | _ \<Rightarrow> (Aborted, [invalid_type ''string'' v], None))"
| "parse (ZArray item minLength maxLength) v =
     (case v of
        Some (JArr xs) \<Rightarrow>
          (let small = (case minLength of
                          Some (n, msg) \<Rightarrow> (if length xs < n then [msg] else [])
                        | None \<Rightarrow> []);
               big = (case maxLength of
                        Some (n, msg) \<Rightarrow> (if length xs > n then [msg] else [])
                      | None \<Rightarrow> []);
               results = map (\<lambda>x. parse item (Some x)) xs;
               st = merge_status (if small @ big = [] then Valid else Dirty) (map fst results)
           in (st,
               small @ big @ concat (map (\<lambda>r. fst (snd r)) results),
               if st = Aborted then None else Some (array_value results)))
      | _ \<Rightarrow> (Aborted, [invalid_type ''array'' v], None))"
| "parse (ZObject shape mode) v =
     (case v of
        Some (JObj kvs) \<Rightarrow>
          (let pairs = map (\<lambda>ks. (fst ks, parse (snd ks) (map_of kvs (fst ks)))) shape;
               st = merge_status Valid (map (\<lambda>p. fst (snd p)) pairs)
           in (st,
               concat (map (\<lambda>p. fst (snd (snd p))) pairs),
               if st = Aborted then None else Some (object_value kvs pairs mode)))
      | _ \<Rightarrow> (Aborted, [invalid_type ''object'' v], None))"
| "parse (ZNullable inner) v =
     (case v of Some JNull \<Rightarrow> (Valid, [], Some JNull) | _ \<Rightarrow> parse inner v)"
| "parse (ZOptional inner) v =
     (case v of None \<Rightarrow> (Valid, [], None) | _ \<Rightarrow> parse inner v)"
| "parse (ZRefine inner check msg) v =
     (case parse inner v of
        (Aborted, issues, _) \<Rightarrow> (Aborted, issues, None)
      | (st, issues, None) \<Rightarrow> (st, issues, None)
      | (st, issues, Some out) \<Rightarrow>
          (if check out then (st, issues, Some out) else (Dirty, issues @ [msg], Some out)))"

text \<open>\<open>safeParse\<close> succeeds exactly when the status is \<open>Valid\<close>.\<close>

datatype parse_result = ParseOk json | ParseError "string list"

definition safeParse :: "schema \<Rightarrow> json \<Rightarrow> parse_result" where
  "safeParse s data =
     (case parse s (Some data) of
        (Valid, _, Some out) \<Rightarrow> ParseOk out
      | (_, issues, _) \<Rightarrow> ParseError issues)"

section \<open>Content validation: \<open>src/mcp/server.ts\<close>\<close>

definition McqOptionSchema :: schema where
  "McqOptionSchema =
     ZObject
       [(''id'', ZString [Min 1 ''Option id is required'']),
        (''text'', ZString [Max 500 ''Option text must be 500 characters or fewer'']),
        (''imageUrl'', ZOptional (ZNullable (ZString [])))]
       Strip"

fun field :: "json \<Rightarrow> string \<Rightarrow> json option" where
  "field (JObj kvs) k = map_of kvs k"
| "field _ k = None"

text \<open>
  The refinement \<open>(data) => data.options.some((o) => o.id === data.correctOptionId)\<close>,
  applied by the library to the parsed object.
\<close>

definition correctOption_matches :: "json \<Rightarrow> bool" where
  "correctOption_matches data =
     (case field data ''options'' of
        Some (JArr opts) \<Rightarrow> list_ex (\<lambda>opt. field opt ''id'' = field data ''correctOptionId'') opts
      | _ \<Rightarrow> False)"

text \<open>
  \<open>imageFile\<close> is \<open>z.string().min(1)\<close> without a message of its own: the message
  below is the library's default for that check.
\<close>

definition McqBodySchema :: schema where
  "McqBodySchema =
     ZRefine
       (ZObject
          [(''question'', ZString [Min 1 ''question is required'']),
           (''imageFile'', ZOptional (ZNullable (ZString [Min 1 ''String must contain at least 1 character(s)'']))),
           (''imageUrl'', ZOptional (ZNullable (ZString []))),
           (''imageAlt'', ZOptional (ZNullable (ZString []))),
           (''options'',
              ZArray McqOptionSchema
                (Some (2, ''At least 2 options are required''))
                (Some (4, ''At most 4 options are allowed''))),
           (''correctOptionId'', ZString [Min 1 ''correctOptionId is required''])]
          Strip)
       correctOption_matches
       ''correctOptionId must match the id of one of the provided options''"

definition ShortTextBodySchema :: schema where
  "ShortTextBodySchema =
     ZObject
       [(''question'', ZString [Min 1 ''question is required'']),
        (''modelAnswer'', ZString [Min 1 ''modelAnswer is required''])]
       Passthrough"

definition TextBodySchema :: schema where
  "TextBodySchema = ZObject [(''text'', ZString [Min 1 ''text is required''])] Strip"

text \<open>\<open>issues.map((i) => i.message).join('; ')\<close>\<close>

fun join :: "string \<Rightarrow> string list \<Rightarrow> string" where
  "join sep [] = []"
| "join sep [x] = x"
| "join sep (x # y # ys) = x @ sep @ join sep (y # ys)"

datatype validation = Success | Failure string

definition validateBodyData :: "string \<Rightarrow> json \<Rightarrow> validation" where
  "validateBodyData type bodyData =
     (if type = ''multiple-choice-question'' then
        (case safeParse McqBodySchema bodyData of
           ParseError issues \<Rightarrow>
             Failure (''Invalid body_data for multiple-choice-question: '' @ join ''; '' issues)
         | ParseOk _ \<Rightarrow> Success)
      else if type = ''short-text-question'' then
        (case safeParse ShortTextBodySchema bodyData of
           ParseError issues \<Rightarrow>
             Failure (''Invalid body_data for short-text-question: '' @ join ''; '' issues)
         | ParseOk _ \<Rightarrow> Success)
      else if type = ''text'' then
        (case safeParse TextBodySchema bodyData of
           ParseError issues \<Rightarrow> Failure (''Invalid body_data for text: '' @ join ''; '' issues)
         | ParseOk _ \<Rightarrow> Success)
      else Success)"

section \<open>The content store gateway: \<open>activityQueries\<close>\<close>

text \<open>
  The \<open>activities\<close> table is a list of rows in insertion order. \<open>active\<close> is
  nullable in the store (the queries read it through \<open>COALESCE(active, true)\<close>), as
  are \<open>order_by\<close> and \<open>notes\<close>.
\<close>

text \<open>
  \<open>body_data\<close> is a JSONB column. \<open>activityQueries.create\<close> sends
  \<open>JSON.stringify(input.body_data)\<close> and returns the row the store gives back
  (\<open>RETURNING *\<close>), whose \<open>body_data\<close> the driver has parsed from the stored value.
  JSONB keeps every key of an object once and in its own order, shorter keys first and
  keys of equal length by their code units; arrays keep their order and strings,
  numbers, booleans and null their value. \<open>jsonb\<close> is this round trip. An
  association list stands for the object that \<^const>\<open>map_of\<close> reads from it, so of a
  key that occurs twice the first binding is the one written.
\<close>

fun jsonb :: "json \<Rightarrow> json" where
  "jsonb (JObj kvs) =
     JObj (sort_key (\<lambda>kv. (length (fst kv), fst kv))
             (AList.clearjunk (map (\<lambda>kv. (fst kv, jsonb (snd kv))) kvs)))"
| "jsonb (JArr xs) = JArr (map jsonb xs)"
| "jsonb v = v"

record CreateActivityInput =
  lesson_id :: string
  title :: string
  type :: string
  body_data :: json
  order_by :: "int option"
  is_summative :: "bool option"
  "notes" :: "string option"

record DbActivity =
  activity_id :: string
  lesson_id :: string
  title :: string
  type :: string
  body_data :: json
  order_by :: "int option"
  active :: "bool option"
  is_summative :: bool
  "notes" :: "string option"

text \<open>
  A query either returns or throws; \<open>fault\<close> is the message of the error the store
  raises for this query, if it raises one. \<open>new_id\<close> is the \<open>activity_id\<close> the
  store assigns to an inserted row.
\<close>

type_synonym fault = "string option"

text \<open>\<open>input.order_by || null\<close> and \<open>input.notes || null\<close>: a falsy value becomes null.\<close>

definition number_or_null :: "int option \<Rightarrow> int option" where
  "number_or_null x = (case x of Some n \<Rightarrow> (if n = 0 then None else Some n) | None \<Rightarrow> None)"

definition string_or_null :: "string option \<Rightarrow> string option" where
  "string_or_null x = (case x of Some t \<Rightarrow> (if t = [] then None else Some t) | None \<Rightarrow> None)"

definition boolean_or_false :: "bool option \<Rightarrow> bool" where
  "boolean_or_false x = (case x of Some b \<Rightarrow> b | None \<Rightarrow> False)"

definition coalesce_active :: "DbActivity \<Rightarrow> bool" where
  "coalesce_active r = (case active r of Some b \<Rightarrow> b | None \<Rightarrow> True)"

text \<open>
  \<open>ORDER BY order_by, activity_id\<close>: ascending, rows without \<open>order_by\<close> last, ids
  compared as strings (here code unit by code unit). Only the membership of rows in a
  listing matters below, not their order.
\<close>

definition order_key :: "DbActivity \<Rightarrow> (nat \<times> int) \<times> string" where
  "order_key r = ((case order_by r of Some n \<Rightarrow> (0, n) | None \<Rightarrow> (1, 0)), activity_id r)"

definition activityQueries_getAll :: "fault \<Rightarrow> DbActivity list \<Rightarrow> string \<Rightarrow> string + DbActivity list" where
  "activityQueries_getAll fault activities lessonId =
     (case fault of
        Some msg \<Rightarrow> Inl msg
      | None \<Rightarrow>
          Inr (sort_key order_key
                 (filter (\<lambda>r. DbActivity.lesson_id r = lessonId \<and> coalesce_active r = True) activities)))"

definition activityQueries_create ::
  "fault \<Rightarrow> string \<Rightarrow> DbActivity list \<Rightarrow> CreateActivityInput \<Rightarrow> string + (DbActivity list \<times> DbActivity)" where
  "activityQueries_create fault new_id activities input =
     (case fault of
        Some msg \<Rightarrow> Inl msg
      | None \<Rightarrow>
          (let row = \<lparr>activity_id = new_id,
                        lesson_id = CreateActivityInput.lesson_id input,
                        title = CreateActivityInput.title input,
                        type = CreateActivityInput.type input,
                        body_data = jsonb (CreateActivityInput.body_data input),
                        order_by = number_or_null (CreateActivityInput.order_by input),
                        active = Some True,
                        is_summative = boolean_or_false (CreateActivityInput.is_summative input),
                        notes = string_or_null (CreateActivityInput.notes input)\<rparr>
           in Inr (activities @ [row], row)))"

text \<open>\<open>UPDATE activities SET active = false WHERE activity_id = $1\<close>; the result is
  whether a row matched.\<close>

definition activityQueries_delete ::
  "fault \<Rightarrow> DbActivity list \<Rightarrow> string \<Rightarrow> string + (DbActivity list \<times> bool)" where
  "activityQueries_delete fault activities activityId =
     (case fault of
        Some msg \<Rightarrow> Inl msg
      | None \<Rightarrow>
          Inr (map (\<lambda>r. if activity_id r = activityId then r\<lparr>active := Some False\<rparr> else r) activities,
               0 < length (filter (\<lambda>r. activity_id r = activityId) activities)))"

section \<open>Tool handlers: \<open>create_activity\<close> and \<open>list_activities\<close>\<close>

text \<open>
  A tool result carries one text item. Where the handler writes \<open>JSON.stringify\<close> of
  rows, the model keeps the rows.
\<close>

datatype tool_text =
    Text string
  | Stringify_activity DbActivity
  | Stringify_activities "DbActivity list"

record ToolResult =
  content :: tool_text
  isError :: bool

definition create_activity ::
  "fault \<Rightarrow> string \<Rightarrow> DbActivity list \<Rightarrow> CreateActivityInput \<Rightarrow> DbActivity list \<times> ToolResult" where
  "create_activity fault new_id activities args =
     (if CreateActivityInput.type args = ''text'' \<and> CreateActivityInput.is_summative args = Some True then
        (activities,
         \<lparr>content = Text ''text activities are non-scorable and cannot be summative'', isError = True\<rparr>)
      else
        (case validateBodyData (CreateActivityInput.type args) (CreateActivityInput.body_data args) of
           Failure err \<Rightarrow> (activities, \<lparr>content = Text err, isError = True\<rparr>)
         | Success \<Rightarrow>
             (let input = \<lparr>CreateActivityInput.lesson_id = CreateActivityInput.lesson_id args,
                            CreateActivityInput.title = CreateActivityInput.title args,
                            CreateActivityInput.type = CreateActivityInput.type args,
                            CreateActivityInput.body_data = CreateActivityInput.body_data args,
                            CreateActivityInput.order_by = CreateActivityInput.order_by args,
                            CreateActivityInput.is_summative = CreateActivityInput.is_summative args,
                            CreateActivityInput.notes = CreateActivityInput.notes args\<rparr>
              in case activityQueries_create fault new_id activities input of
                   Inl msg \<Rightarrow>
                     (activities, \<lparr>content = Text (''Error creating activity: '' @ msg), isError = True\<rparr>)
                 | Inr (activities', activity) \<Rightarrow>
                     (activities', \<lparr>content = Stringify_activity activity, isError = False\<rparr>))))"

definition list_activities :: "fault \<Rightarrow> DbActivity list \<Rightarrow> string \<Rightarrow> ToolResult" where
  "list_activities fault activities lessonId =
     (case activityQueries_getAll fault activities lessonId of
        Inl msg \<Rightarrow> \<lparr>content = Text (''Error listing activities: '' @ msg), isError = True\<rparr>
      | Inr rows \<Rightarrow> \<lparr>content = Stringify_activities rows, isError = False\<rparr>)"

section \<open>The API-key gate: \<open>src/middleware/auth.ts\<close>\<close>

record request =
  authorization :: "string option"
  x_mcp_key :: "string option"
  mcp_session_id :: "string option"

text \<open>\<open>res.status(n).json(body)\<close>, or whatever the session's transport wrote.\<close>

datatype response = Json nat json | Transport_response

datatype gate = Stop response | Next

text \<open>\<open>s.replace(pat, rep)\<close> with a string pattern replaces the first occurrence only.\<close>

fun replace_first :: "string \<Rightarrow> string \<Rightarrow> string \<Rightarrow> string" where
  "replace_first pat rep [] = (if pat = [] then rep else [])"
| "replace_first pat rep (c # cs) =
     (if take (length pat) (c # cs) = pat then rep @ drop (length pat) (c # cs)
      else c # replace_first pat rep cs)"

text \<open>\<open>authHeader?.replace('Bearer ', '') || mcpKey\<close>\<close>

definition providedKey :: "request \<Rightarrow> string option" where
  "providedKey req =
     (case authorization req of
        Some authHeader \<Rightarrow>
          (let k = replace_first ''Bearer '' [] authHeader
           in if k \<noteq> [] then Some k else x_mcp_key req)
      | None \<Rightarrow> x_mcp_key req)"

definition truthy :: "string option \<Rightarrow> bool" where
  "truthy x = (case x of Some t \<Rightarrow> t \<noteq> [] | None \<Rightarrow> False)"

definition validateMcpKey :: "string \<Rightarrow> request \<Rightarrow> gate" where
  "validateMcpKey serviceKey req =
     (if \<not> truthy (providedKey req) then
        Stop (Json 401
          (JObj [(''error'', JStr ''Unauthorized''),
                 (''message'',
                  JStr ''MCP service key required. Provide via Authorization header or x-mcp-key header.'')]))
      else if providedKey req \<noteq> Some serviceKey then
        Stop (Json 403
          (JObj [(''error'', JStr ''Forbidden''), (''message'', JStr ''Invalid MCP service key'')]))
      else Next)"

section \<open>The session registry and the \<open>/mcp\<close> routes\<close>

text \<open>
  \<open>sessions\<close> is a \<open>Map\<close> from session id to the pair of engine and transport, kept
  here in insertion order; the two instances are named by handles. \<open>has\<close>, \<open>get\<close>,
  \<open>set\<close> and \<open>delete\<close> are \<^const>\<open>map_of\<close>, \<^const>\<open>AList.update\<close> and
  \<^const>\<open>AList.delete\<close>.
\<close>

record session =
  server :: nat
  transport :: nat

type_synonym registry = "(string \<times> session) list"

definition sessions_has :: "registry \<Rightarrow> string \<Rightarrow> bool" where
  "sessions_has sessions sid = (map_of sessions sid \<noteq> None)"

text \<open>
  The two callbacks the POST handler installs on a transport. \<open>onclose\<close> reads the
  transport's own session id, which is undefined until the handshake assigned one.
\<close>

definition onsessioninitialized :: "session \<Rightarrow> string \<Rightarrow> registry \<Rightarrow> registry" where
  "onsessioninitialized entry sid sessions = AList.update sid entry sessions"

definition onclose :: "string option \<Rightarrow> registry \<Rightarrow> registry" where
  "onclose sessionId sessions =
     (case sessionId of
        Some sid \<Rightarrow> (if sid \<noteq> [] then AList.delete sid sessions else sessions)
      | None \<Rightarrow> sessions)"

text \<open>
  What one call of \<open>transport.handleRequest\<close> did, as far as the routes can see:
  whether the handshake assigned a session id (and so fired \<open>onsessioninitialized\<close>
  with it), whether the transport closed (and fired \<open>onclose\<close>), whether the call
  threw, and whether response headers were already sent when it threw.
\<close>

record transport_run =
  assigned :: "string option"
  closed :: bool
  threw :: bool
  headersSent :: bool

definition handleRequest :: "transport_run \<Rightarrow> session \<Rightarrow> string option \<Rightarrow> registry \<Rightarrow> registry" where
  "handleRequest run entry sessionId sessions =
     (let sessions1 = (case assigned run of
                         Some sid \<Rightarrow> onsessioninitialized entry sid sessions
                       | None \<Rightarrow> sessions);
          sessionId1 = (case assigned run of Some sid \<Rightarrow> Some sid | None \<Rightarrow> sessionId)
      in if closed run then onclose sessionId1 sessions1 else sessions1)"

text \<open>The \<open>catch\<close> block shared by the three routes.\<close>

definition settle :: "transport_run \<Rightarrow> response" where
  "settle run =
     (if threw run \<and> \<not> headersSent run
      then Json 500 (JObj [(''error'', JStr ''Internal server error'')])
      else Transport_response)"

definition invalid_session :: response where
  "invalid_session = Json 400 (JObj [(''error'', JStr ''Invalid or missing session ID'')])"

text \<open>\<open>fresh\<close> is the pair of the new transport and the new engine of the POST route.\<close>

definition post_mcp :: "transport_run \<Rightarrow> session \<Rightarrow> registry \<Rightarrow> request \<Rightarrow> registry \<times> response" where
  "post_mcp run fresh sessions req =
     (case mcp_session_id req of
        Some sessionId \<Rightarrow>
          (if sessionId \<noteq> [] \<and> sessions_has sessions sessionId then
             (case map_of sessions sessionId of
                Some session \<Rightarrow> (handleRequest run session (Some sessionId) sessions, settle run)
              | None \<Rightarrow> (sessions, settle run))
           else (handleRequest run fresh None sessions, settle run))
      | None \<Rightarrow> (handleRequest run fresh None sessions, settle run))"

definition get_mcp :: "transport_run \<Rightarrow> registry \<Rightarrow> request \<Rightarrow> registry \<times> response" where
  "get_mcp run sessions req =
     (case mcp_session_id req of
        Some sessionId \<Rightarrow>
          (if sessionId = [] \<or> \<not> sessions_has sessions sessionId then (sessions, invalid_session)
           else
             (case map_of sessions sessionId of
                Some session \<Rightarrow> (handleRequest run session (Some sessionId) sessions, settle run)
              | None \<Rightarrow> (sessions, settle run)))
      | None \<Rightarrow> (sessions, invalid_session))"

definition delete_mcp :: "transport_run \<Rightarrow> registry \<Rightarrow> request \<Rightarrow> registry \<times> response" where
  "delete_mcp run sessions req =
     (case mcp_session_id req of
        Some sessionId \<Rightarrow>
          (if sessionId = [] \<or> \<not> sessions_has sessions sessionId then (sessions, invalid_session)
           else
             (case map_of sessions sessionId of
                Some session \<Rightarrow>
                  (let sessions1 = handleRequest run session (Some sessionId) sessions
                   in if threw run then (sessions1, settle run)
                      else (AList.delete sessionId sessions1, Transport_response))
              | None \<Rightarrow> (sessions, settle run)))
      | None \<Rightarrow> (sessions, invalid_session))"

datatype http_method = POST | GET | DELETE

text \<open>\<open>app.post('/mcp', validateMcpKey, handler)\<close> and its two siblings: the handler
  runs only when the gate calls \<open>next()\<close>.\<close>

definition mcp_route ::
  "string \<Rightarrow> http_method \<Rightarrow> transport_run \<Rightarrow> session \<Rightarrow> registry \<Rightarrow> request \<Rightarrow> registry \<times> response" where
  "mcp_route serviceKey m run fresh sessions req =
     (case validateMcpKey serviceKey req of
        Stop res \<Rightarrow> (sessions, res)
      | Next \<Rightarrow>
          (case m of
             POST \<Rightarrow> post_mcp run fresh sessions req
           | GET \<Rightarrow> get_mcp run sessions req
           | DELETE \<Rightarrow> delete_mcp run sessions req))"

text \<open>
  \<open>shutdown\<close>: for each entry, close the engine (which closes its transport, so that
  \<open>onclose\<close> runs when \<open>fires sid\<close>), then delete the entry.
\<close>

fun shutdown_loop :: "(string \<Rightarrow> bool) \<Rightarrow> (string \<times> session) list \<Rightarrow> registry \<Rightarrow> registry" where
  "shutdown_loop fires [] sessions = sessions"
| "shutdown_loop fires (e # rest) sessions =
     shutdown_loop fires rest
       (AList.delete (fst e) (if fires (fst e) then onclose (Some (fst e)) sessions else sessions))"

definition shutdown :: "(string \<Rightarrow> bool) \<Rightarrow> registry \<Rightarrow> registry" where
  "shutdown fires sessions = shutdown_loop fires sessions sessions"

section \<open>The rules of the specification, for comparison\<close>

text \<open>
  The definitions of this section are not taken from the code: they restate the
  rules of the specification for a \<open>multiple-choice-question\<close> payload, so that the
  validation engine above can be compared with them.
\<close>

fun is_string :: "json option \<Rightarrow> bool" where
  "is_string (Some (JStr s)) = True"
| "is_string _ = False"

fun absent_null_or_string :: "json option \<Rightarrow> bool" where
  "absent_null_or_string None = True"
| "absent_null_or_string (Some JNull) = True"
| "absent_null_or_string (Some (JStr s)) = True"
| "absent_null_or_string _ = False"

fun str_of :: "json option \<Rightarrow> string" where
  "str_of (Some (JStr s)) = s"
| "str_of _ = []"

definition options_of :: "json \<Rightarrow> json list" where
  "options_of payload = (case field payload ''options'' of Some (JArr opts) \<Rightarrow> opts | _ \<Rightarrow> [])"

text \<open>
  The three conditions of the testable property: between 2 and 4 options, every
  option text of at most 500 characters, \<open>correctOptionId\<close> among the option ids.
\<close>

definition spec_mcq_accepts :: "json \<Rightarrow> bool" where
  "spec_mcq_accepts payload =
     (2 \<le> length (options_of payload) \<and> length (options_of payload) \<le> 4
      \<and> list_all (\<lambda>opt. length (str_of (field opt ''text'')) \<le> 500) (options_of payload)
      \<and> is_string (field payload ''correctOptionId'')
      \<and> list_ex (\<lambda>opt. field opt ''id'' = field payload ''correctOptionId'') (options_of payload))"

text \<open>Every field has the JSON type its rule speaks of.\<close>

definition spec_option_well_typed :: "json \<Rightarrow> bool" where
  "spec_option_well_typed opt =
     (is_string (field opt ''id'') \<and> is_string (field opt ''text'')
      \<and> absent_null_or_string (field opt ''imageUrl''))"

definition spec_mcq_well_typed :: "json \<Rightarrow> bool" where
  "spec_mcq_well_typed payload =
     (is_string (field payload ''question'')
      \<and> absent_null_or_string (field payload ''imageFile'')
      \<and> absent_null_or_string (field payload ''imageUrl'')
      \<and> absent_null_or_string (field payload ''imageAlt'')
      \<and> (case field payload ''options'' of
             Some (JArr opts) \<Rightarrow> list_all spec_option_well_typed opts
           | _ \<Rightarrow> False)
      \<and> is_string (field payload ''correctOptionId''))"

text \<open>The messages of the rules a well-typed payload violates, in the order of the schema.\<close>

definition spec_option_violations :: "json \<Rightarrow> string list" where
  "spec_option_violations opt =
     (if str_of (field opt ''id'') = [] then [''Option id is required''] else [])
     @ (if length (str_of (field opt ''text'')) > 500
        then [''Option text must be 500 characters or fewer''] else [])"

definition spec_mcq_violations :: "json \<Rightarrow> string list" where
  "spec_mcq_violations payload =
     (if str_of (field payload ''question'') = [] then [''question is required''] else [])
     @ (if field payload ''imageFile'' = Some (JStr [])
        then [''String must contain at least 1 character(s)''] else [])
     @ (if length (options_of payload) < 2 then [''At least 2 options are required''] else [])
     @ (if length (options_of payload) > 4 then [''At most 4 options are allowed''] else [])
     @ concat (map spec_option_violations (options_of payload))
     @ (if str_of (field payload ''correctOptionId'') = [] then [''correctOptionId is required''] else [])
     @ (if list_ex (\<lambda>opt. field opt ''id'' = field payload ''correctOptionId'') (options_of payload)
        then [] else [''correctOptionId must match the id of one of the provided options''])"

text \<open>All rules of the kind together: the payload is well typed and violates none.\<close>

definition spec_mcq_rules_hold :: "json \<Rightarrow> bool" where
  "spec_mcq_rules_hold payload = (spec_mcq_well_typed payload \<and> spec_mcq_violations payload = [])"

text \<open>
  The messages \<open>validateBodyData\<close> joins for a \<open>multiple-choice-question\<close> payload
  (\<open>result.error.issues.map((i) => i.message)\<close>), none when the payload is accepted.
\<close>

definition reported_issues :: "json \<Rightarrow> string list" where
  "reported_issues payload =
     (case safeParse McqBodySchema payload of ParseError issues \<Rightarrow> issues | ParseOk _ \<Rightarrow> [])"

text \<open>
  The rules once more, for any payload: one issue for every violated rule other than
  the membership of \<open>correctOptionId\<close>. Where a length or a count is violated the
  issue is the message server.ts gives; where a field is missing or of the wrong type
  it is the library's message for that (\<^const>\<open>invalid_type\<close>).
\<close>

fun spec_required_string :: "string \<Rightarrow> json option \<Rightarrow> string list" where
  "spec_required_string m (Some (JStr s)) = (if s = [] then [m] else [])"
| "spec_required_string m v = [invalid_type ''string'' v]"

fun spec_capped_string :: "nat \<Rightarrow> string \<Rightarrow> json option \<Rightarrow> string list" where
  "spec_capped_string n m (Some (JStr s)) = (if n < length s then [m] else [])"
| "spec_capped_string n m v = [invalid_type ''string'' v]"

definition spec_optional_string :: "json option \<Rightarrow> string list" where
  "spec_optional_string v = (if absent_null_or_string v then [] else [invalid_type ''string'' v])"

definition spec_optional_nonempty :: "string \<Rightarrow> json option \<Rightarrow> string list" where
  "spec_optional_nonempty m v = (if v = Some (JStr []) then [m] else spec_optional_string v)"

fun spec_option_issues :: "json \<Rightarrow> string list" where
  "spec_option_issues (JObj kvs) =
     spec_required_string ''Option id is required'' (map_of kvs ''id'')
     @ spec_capped_string 500 ''Option text must be 500 characters or fewer'' (map_of kvs ''text'')
     @ spec_optional_string (map_of kvs ''imageUrl'')"
| "spec_option_issues opt = [invalid_type ''object'' (Some opt)]"

fun spec_options_issues :: "json option \<Rightarrow> string list" where
  "spec_options_issues (Some (JArr opts)) =
     (if length opts < 2 then [''At least 2 options are required''] else [])
     @ (if 4 < length opts then [''At most 4 options are allowed''] else [])
     @ concat (map spec_option_issues opts)"
| "spec_options_issues v = [invalid_type ''array'' v]"

fun spec_mcq_field_issues :: "json \<Rightarrow> string list" where
  "spec_mcq_field_issues (JObj kvs) =
     spec_required_string ''question is required'' (map_of kvs ''question'')
     @ spec_optional_nonempty ''String must contain at least 1 character(s)'' (map_of kvs ''imageFile'')
     @ spec_optional_string (map_of kvs ''imageUrl'')
     @ spec_optional_string (map_of kvs ''imageAlt'')
     @ spec_options_issues (map_of kvs ''options'')
     @ spec_required_string ''correctOptionId is required'' (map_of kvs ''correctOptionId'')"
| "spec_mcq_field_issues payload = [invalid_type ''object'' (Some payload)]"

text \<open>
  The membership rule is judged only when no field is missing or of the wrong type.
\<close>

definition spec_membership_issue :: "json \<Rightarrow> string list" where
  "spec_membership_issue payload =
     (if spec_mcq_well_typed payload
         \<and> \<not> list_ex (\<lambda>opt. field opt ''id'' = field payload ''correctOptionId'') (options_of payload)
      then [''correctOptionId must match the id of one of the provided options''] else [])"


section \<open>The schema interpreter on the multiple-choice schema\<close>

lemma parse_required_string:
  "is_string v \<Longrightarrow>
   parse (ZString [Min (Suc 0) m]) v = (if str_of v = [] then Dirty else Valid, if str_of v = [] then [m] else [], v)"
  by (cases v rule: is_string.cases) (simp_all add: Let_def)

lemma parse_capped_string:
  "is_string v \<Longrightarrow>
   parse (ZString [Max n m]) v =
     (if length (str_of v) > n then Dirty else Valid, if length (str_of v) > n then [m] else [], v)"
  by (cases v rule: is_string.cases) (simp_all add: Let_def)

lemma parse_string_untyped:
  "\<not> is_string v \<Longrightarrow> fst (parse (ZString cs) v) = Aborted"
  by (cases v rule: is_string.cases) simp_all

lemma parse_optional_string:
  "absent_null_or_string v \<Longrightarrow> parse (ZOptional (ZNullable (ZString []))) v = (Valid, [], v)"
  by (cases v rule: absent_null_or_string.cases) simp_all

lemma parse_optional_nonempty:
  "absent_null_or_string v \<Longrightarrow>
   parse (ZOptional (ZNullable (ZString [Min (Suc 0) m]))) v =
     (if v = Some (JStr []) then Dirty else Valid, if v = Some (JStr []) then [m] else [], v)"
  by (cases v rule: absent_null_or_string.cases) (simp_all add: Let_def)

lemma parse_optional_untyped:
  "\<not> absent_null_or_string v \<Longrightarrow> fst (parse (ZOptional (ZNullable (ZString cs))) v) = Aborted"
  by (cases v rule: absent_null_or_string.cases) simp_all

lemma well_typed_is_object: "is_string (field x k) \<Longrightarrow> \<exists>kvs. x = JObj kvs"
  by (cases x) simp_all

lemma parse_option_typed:
  assumes "spec_option_well_typed opt"
  shows "\<exists>out. parse McqOptionSchema (Some opt) =
           (if spec_option_violations opt = [] then Valid else Dirty,
            spec_option_violations opt, Some out)
         \<and> field out ''id'' = field opt ''id''"
proof -
  from assms obtain kvs where opt: "opt = JObj kvs"
    unfolding spec_option_well_typed_def using well_typed_is_object by blast
  from assms have t: "is_string (map_of kvs ''id'')" "is_string (map_of kvs ''text'')"
    "absent_null_or_string (map_of kvs ''imageUrl'')"
    by (simp_all add: spec_option_well_typed_def opt)
  from t(1) obtain i where i: "map_of kvs ''id'' = Some (JStr i)"
    by (cases "map_of kvs ''id''" rule: is_string.cases) simp_all
  show ?thesis
    using t i
    by (simp add: opt McqOptionSchema_def parse_required_string parse_capped_string
        parse_optional_string merge_status_def object_value_def spec_option_violations_def Let_def
        del: parse.simps(1,4,5))
qed

lemma parse_option_untyped:
  assumes "\<not> spec_option_well_typed opt"
  shows "fst (parse McqOptionSchema (Some opt)) = Aborted"
proof (cases opt)
  case (JObj kvs)
  with assms have "\<not> is_string (map_of kvs ''id'') \<or> \<not> is_string (map_of kvs ''text'')
      \<or> \<not> absent_null_or_string (map_of kvs ''imageUrl'')"
    by (simp add: spec_option_well_typed_def)
  then show ?thesis
    using parse_string_untyped parse_optional_untyped
    by (auto simp add: JObj McqOptionSchema_def merge_status_def simp del: parse.simps(1,4,5))
qed (simp_all add: McqOptionSchema_def)


lemma parse_options_typed:
  assumes "list_all spec_option_well_typed opts"
  shows "Aborted \<notin> set (map (\<lambda>x. fst (parse McqOptionSchema (Some x))) opts)
    \<and> (Dirty \<in> set (map (\<lambda>x. fst (parse McqOptionSchema (Some x))) opts)
         \<longleftrightarrow> concat (map spec_option_violations opts) \<noteq> [])
    \<and> concat (map (\<lambda>x. fst (snd (parse McqOptionSchema (Some x)))) opts)
         = concat (map spec_option_violations opts)
    \<and> (\<exists>outs. array_value (map (\<lambda>x. parse McqOptionSchema (Some x)) opts) = JArr outs
           \<and> map (\<lambda>x. field x ''id'') outs = map (\<lambda>x. field x ''id'') opts)"
  using assms
proof (induction opts)
  case Nil
  then show ?case by (simp add: array_value_def)
next
  case (Cons x xs)
  then have wt: "spec_option_well_typed x" and rest: "list_all spec_option_well_typed xs"
    by simp_all
  from parse_option_typed [OF wt] obtain out where
    px: "parse McqOptionSchema (Some x) =
           (if spec_option_violations x = [] then Valid else Dirty, spec_option_violations x, Some out)"
    and ox: "field out ''id'' = field x ''id''"
    by blast
  from Cons.IH [OF rest] obtain outs where
    a: "Aborted \<notin> set (map (\<lambda>x. fst (parse McqOptionSchema (Some x))) xs)"
    and d: "Dirty \<in> set (map (\<lambda>x. fst (parse McqOptionSchema (Some x))) xs)
         \<longleftrightarrow> concat (map spec_option_violations xs) \<noteq> []"
    and i: "concat (map (\<lambda>x. fst (snd (parse McqOptionSchema (Some x)))) xs)
         = concat (map spec_option_violations xs)"
    and v: "array_value (map (\<lambda>x. parse McqOptionSchema (Some x)) xs) = JArr outs"
    and ids: "map (\<lambda>x. field x ''id'') outs = map (\<lambda>x. field x ''id'') xs"
    by blast
  have "array_value (map (\<lambda>x. parse McqOptionSchema (Some x)) (x # xs)) = JArr (out # outs)"
    using v px by (simp add: array_value_def)
  moreover have "map (\<lambda>x. field x ''id'') (out # outs) = map (\<lambda>x. field x ''id'') (x # xs)"
    using ox ids by simp
  ultimately have "\<exists>outs. array_value (map (\<lambda>x. parse McqOptionSchema (Some x)) (x # xs)) = JArr outs
           \<and> map (\<lambda>x. field x ''id'') outs = map (\<lambda>x. field x ''id'') (x # xs)"
    by blast
  then show ?case
    using a d i px by auto
qed

lemma list_ex_ids:
  "map (\<lambda>x. field x ''id'') outs = map (\<lambda>x. field x ''id'') opts \<Longrightarrow>
   list_ex (\<lambda>x. field x ''id'' = c) outs = list_ex (\<lambda>x. field x ''id'' = c) opts"
proof -
  assume "map (\<lambda>x. field x ''id'') outs = map (\<lambda>x. field x ''id'') opts"
  then have "set (map (\<lambda>x. field x ''id'') outs) = set (map (\<lambda>x. field x ''id'') opts)"
    by simp
  then show ?thesis
    unfolding list_ex_iff by (metis (mono_tags, lifting) image_iff list.set_map)
qed

lemma parse_options_array_typed:
  assumes "list_all spec_option_well_typed opts"
  shows "\<exists>outs. parse (ZArray McqOptionSchema (Some (2, m1)) (Some (4, m2))) (Some (JArr opts)) =
           (if (if length opts < 2 then [m1] else []) @ (if 4 < length opts then [m2] else [])
                 @ concat (map spec_option_violations opts) = [] then Valid else Dirty,
            (if length opts < 2 then [m1] else []) @ (if 4 < length opts then [m2] else [])
              @ concat (map spec_option_violations opts),
            Some (JArr outs))
         \<and> map (\<lambda>x. field x ''id'') outs = map (\<lambda>x. field x ''id'') opts"
proof -
  from parse_options_typed [OF assms] obtain outs where
    a: "Aborted \<notin> set (map (\<lambda>x. fst (parse McqOptionSchema (Some x))) opts)"
    and d: "Dirty \<in> set (map (\<lambda>x. fst (parse McqOptionSchema (Some x))) opts)
         \<longleftrightarrow> concat (map spec_option_violations opts) \<noteq> []"
    and i: "concat (map (\<lambda>x. fst (snd (parse McqOptionSchema (Some x)))) opts)
         = concat (map spec_option_violations opts)"
    and v: "array_value (map (\<lambda>x. parse McqOptionSchema (Some x)) opts) = JArr outs"
    and ids: "map (\<lambda>x. field x ''id'') outs = map (\<lambda>x. field x ''id'') opts"
    by blast
  have "parse (ZArray McqOptionSchema (Some (2, m1)) (Some (4, m2))) (Some (JArr opts)) =
           (if (if length opts < 2 then [m1] else []) @ (if 4 < length opts then [m2] else [])
                 @ concat (map spec_option_violations opts) = [] then Valid else Dirty,
            (if length opts < 2 then [m1] else []) @ (if 4 < length opts then [m2] else [])
              @ concat (map spec_option_violations opts),
            Some (JArr outs))"
    using a d i v by (simp add: Let_def merge_status_def comp_def image_image)
  with ids show ?thesis by blast
qed


lemma is_string_obtain: "is_string v \<Longrightarrow> \<exists>s. v = Some (JStr s)"
  by (cases v rule: is_string.cases) simp_all

lemma mcq_output_fields:
  "field (object_value kvs
            [(''question'', s1, i1, Some vq), (''imageFile'', s2, i2, v2),
             (''imageUrl'', s3, i3, v3), (''imageAlt'', s4, i4, v4),
             (''options'', s5, i5, Some vo), (''correctOptionId'', s6, i6, Some vc)] Strip)
         ''options'' = Some vo"
  "field (object_value kvs
            [(''question'', s1, i1, Some vq), (''imageFile'', s2, i2, v2),
             (''imageUrl'', s3, i3, v3), (''imageAlt'', s4, i4, v4),
             (''options'', s5, i5, Some vo), (''correctOptionId'', s6, i6, Some vc)] Strip)
         ''correctOptionId'' = Some vc"
  by (simp_all add: object_value_def split: option.splits)

lemma merge_status_clean:
  "merge_status Valid
     [if i1 = [] then Valid else Dirty, if i2 = [] then Valid else Dirty, Valid, Valid,
      if i5 = [] then Valid else Dirty, if i6 = [] then Valid else Dirty]
   = (if i1 @ i2 @ i5 @ i6 = [] then Valid else Dirty)"
  by (simp add: merge_status_def)

lemma parse_mcq_typed:
  assumes "spec_mcq_well_typed p"
  shows "\<exists>out. parse McqBodySchema (Some p) =
           (if spec_mcq_violations p = [] then Valid else Dirty, spec_mcq_violations p, Some out)"
proof -
  from assms obtain kvs where p: "p = JObj kvs"
    unfolding spec_mcq_well_typed_def using well_typed_is_object by blast
  from assms obtain opts where opts: "map_of kvs ''options'' = Some (JArr opts)"
    and wt: "list_all spec_option_well_typed opts"
    by (auto simp add: spec_mcq_well_typed_def p split: option.splits json.splits)
  from assms obtain q c where q: "map_of kvs ''question'' = Some (JStr q)"
    and c: "map_of kvs ''correctOptionId'' = Some (JStr c)"
    using is_string_obtain by (fastforce simp add: spec_mcq_well_typed_def p)
  from assms have img: "absent_null_or_string (map_of kvs ''imageFile'')"
    "absent_null_or_string (map_of kvs ''imageUrl'')"
    "absent_null_or_string (map_of kvs ''imageAlt'')"
    by (simp_all add: spec_mcq_well_typed_def p)
  define iq where "iq = (if q = [] then [''question is required''] else [])"
  define ifile where "ifile = (if map_of kvs ''imageFile'' = Some (JStr [])
                               then [''String must contain at least 1 character(s)''] else [])"
  define iopts where "iopts = (if length opts < 2 then [''At least 2 options are required''] else [])
                 @ (if 4 < length opts then [''At most 4 options are allowed''] else [])
                 @ concat (map spec_option_violations opts)"
  define ic where "ic = (if c = [] then [''correctOptionId is required''] else [])"
  from parse_options_array_typed [OF wt] obtain outs where
    arr: "parse (ZArray McqOptionSchema (Some (2, ''At least 2 options are required''))
                  (Some (4, ''At most 4 options are allowed''))) (Some (JArr opts)) =
           (if iopts = [] then Valid else Dirty, iopts, Some (JArr outs))"
    and ids: "map (\<lambda>x. field x ''id'') outs = map (\<lambda>x. field x ''id'') opts"
    unfolding iopts_def by blast
  have ex: "list_ex (\<lambda>x. field x ''id'' = Some (JStr c)) outs
          = list_ex (\<lambda>x. field x ''id'' = Some (JStr c)) opts"
    using list_ex_ids [OF ids] .
  have r1: "parse (ZString [Min 1 ''question is required'']) (Some (JStr q))
            = (if iq = [] then Valid else Dirty, iq, Some (JStr q))"
    by (simp add: iq_def)
  have r2: "parse (ZOptional (ZNullable (ZString [Min 1 ''String must contain at least 1 character(s)''])))
              (map_of kvs ''imageFile'')
            = (if ifile = [] then Valid else Dirty, ifile, map_of kvs ''imageFile'')"
    using parse_optional_nonempty [OF img(1)] by (simp add: ifile_def)
  have r3: "parse (ZOptional (ZNullable (ZString []))) (map_of kvs ''imageUrl'')
            = (Valid, [], map_of kvs ''imageUrl'')"
    using parse_optional_string [OF img(2)] .
  have r4: "parse (ZOptional (ZNullable (ZString []))) (map_of kvs ''imageAlt'')
            = (Valid, [], map_of kvs ''imageAlt'')"
    using parse_optional_string [OF img(3)] .
  have r6: "parse (ZString [Min 1 ''correctOptionId is required'']) (Some (JStr c))
            = (if ic = [] then Valid else Dirty, ic, Some (JStr c))"
    by (simp add: ic_def)
  define out where "out = object_value kvs
            [(''question'', if iq = [] then Valid else Dirty, iq, Some (JStr q)),
             (''imageFile'', if ifile = [] then Valid else Dirty, ifile, map_of kvs ''imageFile''),
             (''imageUrl'', Valid, [], map_of kvs ''imageUrl''),
             (''imageAlt'', Valid, [], map_of kvs ''imageAlt''),
             (''options'', if iopts = [] then Valid else Dirty, iopts, Some (JArr outs)),
             (''correctOptionId'', if ic = [] then Valid else Dirty, ic, Some (JStr c))] Strip"
  have inner: "parse (ZObject
          [(''question'', ZString [Min 1 ''question is required'']),
           (''imageFile'', ZOptional (ZNullable (ZString [Min 1 ''String must contain at least 1 character(s)'']))),
           (''imageUrl'', ZOptional (ZNullable (ZString []))),
           (''imageAlt'', ZOptional (ZNullable (ZString []))),
           (''options'',
              ZArray McqOptionSchema
                (Some (2, ''At least 2 options are required''))
                (Some (4, ''At most 4 options are allowed''))),
           (''correctOptionId'', ZString [Min 1 ''correctOptionId is required''])]
          Strip) (Some p)
       = (if iq @ ifile @ iopts @ ic = [] then Valid else Dirty, iq @ ifile @ iopts @ ic, Some out)"
    unfolding p parse.simps(3) option.case json.case Let_def list.map fst_conv snd_conv
      q c opts r1 r2 r3 r4 r6 arr merge_status_clean out_def [symmetric]
    by simp
  have chk: "correctOption_matches out = list_ex (\<lambda>x. field x ''id'' = Some (JStr c)) opts"
    unfolding correctOption_matches_def out_def mcq_output_fields using ex by simp
  have viol: "spec_mcq_violations p = iq @ ifile @ iopts @ ic
      @ (if list_ex (\<lambda>x. field x ''id'' = Some (JStr c)) opts then []
         else [''correctOptionId must match the id of one of the provided options''])"
    by (simp add: spec_mcq_violations_def options_of_def p q c opts iq_def ifile_def iopts_def ic_def)
  show ?thesis
    unfolding McqBodySchema_def parse.simps(6) inner viol
    using chk by (cases "iq @ ifile @ iopts @ ic = []") simp_all
qed


lemma parse_object_aborted:
  assumes "(k, s) \<in> set shape" and "fst (parse s (map_of kvs k)) = Aborted"
  shows "fst (parse (ZObject shape m) (Some (JObj kvs))) = Aborted"
proof -
  have "Aborted \<in> set (map (\<lambda>p. fst (snd p))
          (map (\<lambda>ks. (fst ks, parse (snd ks) (map_of kvs (fst ks)))) shape))"
    using assms by (force simp add: image_iff)
  then show ?thesis
    by (simp add: Let_def merge_status_def del: set_map)
qed

lemma parse_array_aborted:
  assumes "x \<in> set xs" and "fst (parse item (Some x)) = Aborted"
  shows "fst (parse (ZArray item mn mx) (Some (JArr xs))) = Aborted"
proof -
  have "Aborted \<in> set (map fst (map (\<lambda>x. parse item (Some x)) xs))"
    using assms by (force simp add: image_iff)
  then show ?thesis
    by (simp add: Let_def merge_status_def del: set_map)
qed

lemma parse_array_untyped:
  "(\<forall>xs. v \<noteq> Some (JArr xs)) \<Longrightarrow> fst (parse (ZArray item mn mx) v) = Aborted"
  by (auto split: option.splits json.splits)

lemma parse_refine_aborted:
  "fst (parse inner v) = Aborted \<Longrightarrow> fst (parse (ZRefine inner chk msg) v) = Aborted"
  by (cases "parse inner v") (simp del: parse.simps(1,2,3,4,5))

lemma parse_options_untyped:
  assumes "\<not> (case v of Some (JArr opts) \<Rightarrow> list_all spec_option_well_typed opts | _ \<Rightarrow> False)"
  shows "fst (parse (ZArray McqOptionSchema mn mx) v) = Aborted"
proof (cases "\<exists>opts. v = Some (JArr opts)")
  case True
  then obtain opts where v: "v = Some (JArr opts)" by blast
  with assms obtain x where "x \<in> set opts" "\<not> spec_option_well_typed x"
    by (auto simp add: list_all_iff)
  then show ?thesis
    unfolding v using parse_array_aborted parse_option_untyped by blast
next
  case False
  then show ?thesis using parse_array_untyped by blast
qed

lemma parse_mcq_untyped:
  assumes "\<not> spec_mcq_well_typed p"
  shows "fst (parse McqBodySchema (Some p)) = Aborted"
proof (cases p)
  case (JObj kvs)
  let ?shape = "[(''question'', ZString [Min 1 ''question is required'']),
           (''imageFile'', ZOptional (ZNullable (ZString [Min 1 ''String must contain at least 1 character(s)'']))),
           (''imageUrl'', ZOptional (ZNullable (ZString []))),
           (''imageAlt'', ZOptional (ZNullable (ZString []))),
           (''options'',
              ZArray McqOptionSchema
                (Some (2, ''At least 2 options are required''))
                (Some (4, ''At most 4 options are allowed''))),
           (''correctOptionId'', ZString [Min 1 ''correctOptionId is required''])]"
  from assms have "\<exists>k s. (k, s) \<in> set ?shape \<and> fst (parse s (map_of kvs k)) = Aborted"
    unfolding spec_mcq_well_typed_def JObj field.simps de_Morgan_conj
  proof (elim disjE)
    assume "\<not> is_string (map_of kvs ''question'')"
    from parse_string_untyped [OF this] show ?thesis by (meson list.set_intros)
  next
    assume "\<not> absent_null_or_string (map_of kvs ''imageFile'')"
    from parse_optional_untyped [OF this] show ?thesis by (meson list.set_intros)
  next
    assume "\<not> absent_null_or_string (map_of kvs ''imageUrl'')"
    from parse_optional_untyped [OF this] show ?thesis by (meson list.set_intros)
  next
    assume "\<not> absent_null_or_string (map_of kvs ''imageAlt'')"
    from parse_optional_untyped [OF this] show ?thesis by (meson list.set_intros)
  next
    assume "\<not> (case map_of kvs ''options'' of Some (JArr opts) \<Rightarrow> list_all spec_option_well_typed opts
                | _ \<Rightarrow> False)"
    from parse_options_untyped [OF this] show ?thesis by (meson list.set_intros)
  next
    assume "\<not> is_string (map_of kvs ''correctOptionId'')"
    from parse_string_untyped [OF this] show ?thesis by (meson list.set_intros)
  qed
  then obtain k s where "(k, s) \<in> set ?shape" "fst (parse s (map_of kvs k)) = Aborted"
    by blast
  from parse_object_aborted [OF this] have "fst (parse (ZObject ?shape Strip) (Some p)) = Aborted"
    by (simp only: JObj)
  from parse_refine_aborted [OF this] show ?thesis
    by (simp only: McqBodySchema_def)
qed (simp_all add: McqBodySchema_def)

section \<open>Content validation: the claims\<close>

lemma validate_mcq_typed:
  assumes "spec_mcq_well_typed p"
  shows "validateBodyData ''multiple-choice-question'' p =
     (if spec_mcq_violations p = [] then Success
      else Failure (''Invalid body_data for multiple-choice-question: ''
                    @ join ''; '' (spec_mcq_violations p)))"
proof -
  from parse_mcq_typed [OF assms] obtain out where
    "parse McqBodySchema (Some p) =
       (if spec_mcq_violations p = [] then Valid else Dirty, spec_mcq_violations p, Some out)"
    by blast
  then show ?thesis
    by (simp add: validateBodyData_def safeParse_def)
qed

lemma validate_mcq_untyped:
  assumes "\<not> spec_mcq_well_typed p"
  shows "validateBodyData ''multiple-choice-question'' p \<noteq> Success"
proof -
  from parse_mcq_untyped [OF assms] obtain issues out where
    "parse McqBodySchema (Some p) = (Aborted, issues, out)"
    by (metis fst_conv surj_pair)
  then show ?thesis
    by (simp add: validateBodyData_def safeParse_def)
qed

lemma rules_imply_spec_conditions:
  assumes "spec_mcq_rules_hold p"
  shows "spec_mcq_accepts p"
proof -
  from assms have wt: "spec_mcq_well_typed p" and v: "spec_mcq_violations p = []"
    by (simp_all add: spec_mcq_rules_hold_def)
  from v have len: "2 \<le> length (options_of p)" "length (options_of p) \<le> 4"
    and each: "\<forall>opt\<in>set (options_of p). spec_option_violations opt = []"
    and mem: "list_ex (\<lambda>opt. field opt ''id'' = field p ''correctOptionId'') (options_of p)"
    by (auto simp add: spec_mcq_violations_def split: if_splits)
  from each have "list_all (\<lambda>opt. length (str_of (field opt ''text'')) \<le> 500) (options_of p)"
    by (auto simp add: list_all_iff spec_option_violations_def split: if_splits)
  moreover from wt have "is_string (field p ''correctOptionId'')"
    by (simp add: spec_mcq_well_typed_def)
  ultimately show ?thesis
    using len mem by (simp add: spec_mcq_accepts_def)
qed

lemma join_contains: "m \<in> set ms \<Longrightarrow> \<exists>a b. join sep ms = a @ m @ b"
proof (induction sep ms rule: join.induct)
  case (1 sep)
  then show ?case by simp
next
  case (2 sep x)
  then have "join sep [x] = [] @ m @ []" by simp
  then show ?case by blast
next
  case (3 sep x y ys)
  show ?case
  proof (cases "m = x")
    case True
    then have "join sep (x # y # ys) = [] @ m @ (sep @ join sep (y # ys))" by simp
    then show ?thesis by blast
  next
    case False
    with 3 obtain a b where "join sep (y # ys) = a @ m @ b" by auto
    then have "join sep (x # y # ys) = (x @ sep @ a) @ m @ b" by simp
    then show ?thesis by blast
  qed
qed

lemma issues_required_string:
  "fst (snd (parse (ZString [Min (Suc 0) m]) v)) = spec_required_string m v"
  by (cases "(m, v)" rule: spec_required_string.cases) (simp_all add: Let_def)

lemma issues_capped_string:
  "fst (snd (parse (ZString [Max n m]) v)) = spec_capped_string n m v"
  by (cases "(n, m, v)" rule: spec_capped_string.cases) (simp_all add: Let_def)

lemma issues_optional_string:
  "fst (snd (parse (ZOptional (ZNullable (ZString []))) v)) = spec_optional_string v"
  by (cases v rule: absent_null_or_string.cases) (simp_all add: spec_optional_string_def)

lemma issues_optional_nonempty:
  "fst (snd (parse (ZOptional (ZNullable (ZString [Min (Suc 0) m]))) v)) = spec_optional_nonempty m v"
  by (cases v rule: absent_null_or_string.cases)
    (simp_all add: spec_optional_nonempty_def spec_optional_string_def Let_def)

lemma issues_object:
  "fst (snd (parse (ZObject shape mode) (Some (JObj kvs))))
   = concat (map (\<lambda>ks. fst (snd (parse (snd ks) (map_of kvs (fst ks))))) shape)"
  by (simp add: Let_def comp_def)

lemma issues_option: "fst (snd (parse McqOptionSchema (Some opt))) = spec_option_issues opt"
proof (cases opt)
  case (JObj kvs)
  show ?thesis
    unfolding JObj McqOptionSchema_def issues_object
    by (simp add: issues_required_string issues_capped_string issues_optional_string
        del: parse.simps)
qed (simp_all add: McqOptionSchema_def)

lemma issues_options:
  "fst (snd (parse (ZArray McqOptionSchema
                      (Some (2, ''At least 2 options are required''))
                      (Some (4, ''At most 4 options are allowed''))) v))
   = spec_options_issues v"
proof (cases v rule: spec_options_issues.cases)
  case (1 opts)
  then show ?thesis
    by (simp add: Let_def comp_def issues_option)
qed simp_all

lemma issues_mcq_object:
  "fst (snd (parse (ZObject
          [(''question'', ZString [Min 1 ''question is required'']),
           (''imageFile'', ZOptional (ZNullable (ZString [Min 1 ''String must contain at least 1 character(s)'']))),
           (''imageUrl'', ZOptional (ZNullable (ZString []))),
           (''imageAlt'', ZOptional (ZNullable (ZString []))),
           (''options'',
              ZArray McqOptionSchema
                (Some (2, ''At least 2 options are required''))
                (Some (4, ''At most 4 options are allowed''))),
           (''correctOptionId'', ZString [Min 1 ''correctOptionId is required''])]
          Strip) (Some p)))
   = spec_mcq_field_issues p"
proof (cases p)
  case (JObj kvs)
  show ?thesis
    unfolding JObj issues_object
    by (simp add: issues_required_string issues_optional_nonempty issues_optional_string
        issues_options del: parse.simps)
qed simp_all

lemma refine_aborted_inner:
  "fst (parse (ZRefine inner chk msg) v) = Aborted \<Longrightarrow> fst (parse inner v) = Aborted"
  by (cases "parse inner v" rule: prod_cases3)
    (auto simp del: parse.simps(1,2,3,4,5) split: status.splits option.splits if_splits)

lemma refine_aborted_result:
  "fst (parse inner v) = Aborted \<Longrightarrow>
   parse (ZRefine inner chk msg) v = (Aborted, fst (snd (parse inner v)), None)"
  by (cases "parse inner v" rule: prod_cases3) (simp del: parse.simps(1,2,3,4,5))

lemma parse_mcq_untyped_result:
  assumes "\<not> spec_mcq_well_typed p"
  shows "parse McqBodySchema (Some p) = (Aborted, spec_mcq_field_issues p, None)"
proof -
  from parse_mcq_untyped [OF assms] have "fst (parse McqBodySchema (Some p)) = Aborted" .
  then have "fst (parse (ZObject
          [(''question'', ZString [Min 1 ''question is required'']),
           (''imageFile'', ZOptional (ZNullable (ZString [Min 1 ''String must contain at least 1 character(s)'']))),
           (''imageUrl'', ZOptional (ZNullable (ZString []))),
           (''imageAlt'', ZOptional (ZNullable (ZString []))),
           (''options'',
              ZArray McqOptionSchema
                (Some (2, ''At least 2 options are required''))
                (Some (4, ''At most 4 options are allowed''))),
           (''correctOptionId'', ZString [Min 1 ''correctOptionId is required''])]
          Strip) (Some p)) = Aborted"
    unfolding McqBodySchema_def by (rule refine_aborted_inner)
  from refine_aborted_result [OF this] show ?thesis
    unfolding McqBodySchema_def issues_mcq_object .
qed


lemma typed_required_string:
  "is_string v \<Longrightarrow> spec_required_string m v = (if str_of v = [] then [m] else [])"
  by (cases v rule: is_string.cases) simp_all

lemma typed_capped_string:
  "is_string v \<Longrightarrow> spec_capped_string n m v = (if n < length (str_of v) then [m] else [])"
  by (cases v rule: is_string.cases) simp_all

lemma typed_option_issues:
  assumes "spec_option_well_typed opt"
  shows "spec_option_issues opt = spec_option_violations opt"
proof -
  from assms obtain kvs where opt: "opt = JObj kvs"
    unfolding spec_option_well_typed_def using well_typed_is_object by blast
  from assms show ?thesis
    by (simp add: opt spec_option_well_typed_def spec_option_violations_def
        typed_required_string typed_capped_string spec_optional_string_def)
qed

lemma typed_split:
  assumes "spec_mcq_well_typed p"
  shows "spec_mcq_violations p = spec_mcq_field_issues p @ spec_membership_issue p"
proof -
  from assms obtain kvs where p: "p = JObj kvs"
    unfolding spec_mcq_well_typed_def using well_typed_is_object by blast
  from assms obtain opts where opts: "map_of kvs ''options'' = Some (JArr opts)"
    and wt: "list_all spec_option_well_typed opts"
    by (auto simp add: spec_mcq_well_typed_def p split: option.splits json.splits)
  from wt have each: "map spec_option_issues opts = map spec_option_violations opts"
    by (simp add: list_all_iff typed_option_issues)
  from assms have typed: "is_string (map_of kvs ''question'')"
    "absent_null_or_string (map_of kvs ''imageFile'')"
    "absent_null_or_string (map_of kvs ''imageUrl'')"
    "absent_null_or_string (map_of kvs ''imageAlt'')"
    "is_string (map_of kvs ''correctOptionId'')"
    by (simp_all add: spec_mcq_well_typed_def p)
  show ?thesis
    using assms typed
    by (simp add: p opts each spec_mcq_violations_def spec_membership_issue_def options_of_def
        typed_required_string spec_optional_nonempty_def spec_optional_string_def)
qed

lemma untyped_required_string: "\<not> is_string v \<Longrightarrow> spec_required_string m v \<noteq> []"
  by (cases v rule: is_string.cases) simp_all

lemma untyped_capped_string: "\<not> is_string v \<Longrightarrow> spec_capped_string n m v \<noteq> []"
  by (cases v rule: is_string.cases) simp_all

lemma untyped_option_has_issue:
  "\<not> spec_option_well_typed opt \<Longrightarrow> spec_option_issues opt \<noteq> []"
  by (cases opt)
    (auto simp add: spec_option_well_typed_def spec_optional_string_def
      untyped_required_string untyped_capped_string)

lemma untyped_options_have_issue:
  assumes "\<not> (case v of Some (JArr opts) \<Rightarrow> list_all spec_option_well_typed opts | _ \<Rightarrow> False)"
  shows "spec_options_issues v \<noteq> []"
proof (cases v rule: spec_options_issues.cases)
  case (1 opts)
  with assms obtain x where "x \<in> set opts" "\<not> spec_option_well_typed x"
    by (auto simp add: list_all_iff)
  with untyped_option_has_issue have "\<exists>x\<in>set opts. spec_option_issues x \<noteq> []"
    by blast
  then show ?thesis
    by (simp add: 1)
qed simp_all

lemma untyped_has_issue:
  assumes "\<not> spec_mcq_well_typed p"
  shows "spec_mcq_field_issues p \<noteq> []"
proof (cases p)
  case (JObj kvs)
  from assms show ?thesis
    unfolding spec_mcq_well_typed_def JObj field.simps de_Morgan_conj
  proof (elim disjE)
    assume "\<not> is_string (map_of kvs ''question'')"
    from untyped_required_string [OF this] show "spec_mcq_field_issues (JObj kvs) \<noteq> []" by simp
  next
    assume "\<not> absent_null_or_string (map_of kvs ''imageFile'')"
    then show "spec_mcq_field_issues (JObj kvs) \<noteq> []"
      by (simp add: spec_optional_nonempty_def spec_optional_string_def)
  next
    assume "\<not> absent_null_or_string (map_of kvs ''imageUrl'')"
    then show "spec_mcq_field_issues (JObj kvs) \<noteq> []"
      by (simp add: spec_optional_string_def)
  next
    assume "\<not> absent_null_or_string (map_of kvs ''imageAlt'')"
    then show "spec_mcq_field_issues (JObj kvs) \<noteq> []"
      by (simp add: spec_optional_string_def)
  next
    assume "\<not> (case map_of kvs ''options'' of Some (JArr opts) \<Rightarrow> list_all spec_option_well_typed opts
                | _ \<Rightarrow> False)"
    from untyped_options_have_issue [OF this] show "spec_mcq_field_issues (JObj kvs) \<noteq> []" by simp
  next
    assume "\<not> is_string (map_of kvs ''correctOptionId'')"
    from untyped_required_string [OF this] show "spec_mcq_field_issues (JObj kvs) \<noteq> []" by simp
  qed
qed simp_all

lemma reported_issues_listing:
  "reported_issues p = spec_mcq_field_issues p @ spec_membership_issue p"
proof (cases "spec_mcq_well_typed p")
  case True
  from parse_mcq_typed [OF True] obtain out where
    "parse McqBodySchema (Some p) =
       (if spec_mcq_violations p = [] then Valid else Dirty, spec_mcq_violations p, Some out)"
    by blast
  then have "reported_issues p = spec_mcq_violations p"
    by (simp add: reported_issues_def safeParse_def)
  with typed_split [OF True] show ?thesis by simp
next
  case False
  from parse_mcq_untyped_result [OF False] have "reported_issues p = spec_mcq_field_issues p"
    by (simp add: reported_issues_def safeParse_def)
  with False show ?thesis
    by (simp add: spec_membership_issue_def)
qed

lemma validate_mcq_reported:
  "validateBodyData ''multiple-choice-question'' p =
     (if reported_issues p = [] then Success
      else Failure (''Invalid body_data for multiple-choice-question: ''
                    @ join ''; '' (reported_issues p)))"
proof (cases "spec_mcq_well_typed p")
  case True
  from parse_mcq_typed [OF True] obtain out where
    "parse McqBodySchema (Some p) =
       (if spec_mcq_violations p = [] then Valid else Dirty, spec_mcq_violations p, Some out)"
    by blast
  then show ?thesis
    by (simp add: validateBodyData_def reported_issues_def safeParse_def)
next
  case False
  from parse_mcq_untyped_result [OF False] untyped_has_issue [OF False] show ?thesis
    by (simp add: validateBodyData_def reported_issues_def safeParse_def)
qed

lemma invalid_type_not_membership:
  "invalid_type e v \<noteq> ''correctOptionId must match the id of one of the provided options''"
  by (simp add: invalid_type_def)

lemma membership_not_option_issue:
  "''correctOptionId must match the id of one of the provided options'' \<notin> set (spec_option_issues opt)"
proof (cases opt)
  case (JObj kvs)
  have "''correctOptionId must match the id of one of the provided options''
        \<notin> set (spec_required_string ''Option id is required'' v)" for v
    by (cases v rule: is_string.cases) (simp_all add: invalid_type_def)
  moreover have "''correctOptionId must match the id of one of the provided options''
        \<notin> set (spec_capped_string 500 ''Option text must be 500 characters or fewer'' v)" for v
    by (cases v rule: is_string.cases) (simp_all add: invalid_type_def)
  moreover have "''correctOptionId must match the id of one of the provided options''
        \<notin> set (spec_optional_string v)" for v
    by (simp add: spec_optional_string_def invalid_type_def)
  ultimately show ?thesis
    by (simp add: JObj)
qed (simp_all add: invalid_type_def)

lemma membership_not_field_issue:
  "''correctOptionId must match the id of one of the provided options'' \<notin> set (spec_mcq_field_issues p)"
proof (cases p)
  case (JObj kvs)
  have "''correctOptionId must match the id of one of the provided options''
        \<notin> set (spec_required_string ''question is required'' v)" for v
    by (cases v rule: is_string.cases) (simp_all add: invalid_type_def)
  moreover have "''correctOptionId must match the id of one of the provided options''
        \<notin> set (spec_required_string ''correctOptionId is required'' v)" for v
    by (cases v rule: is_string.cases) (simp_all add: invalid_type_def)
  moreover have "''correctOptionId must match the id of one of the provided options''
        \<notin> set (spec_optional_string v)" for v
    by (simp add: spec_optional_string_def invalid_type_def)
  moreover have "''correctOptionId must match the id of one of the provided options''
        \<notin> set (spec_optional_nonempty ''String must contain at least 1 character(s)'' v)" for v
    by (simp add: spec_optional_nonempty_def spec_optional_string_def invalid_type_def)
  moreover have "''correctOptionId must match the id of one of the provided options''
        \<notin> set (spec_options_issues v)" for v
    by (cases v rule: spec_options_issues.cases)
      (simp_all add: invalid_type_def membership_not_option_issue)
  ultimately show ?thesis
    by (simp add: JObj)
qed (simp_all add: invalid_type_def)

text \<open>
  C8. A kind other than \<open>multiple-choice-question\<close>, \<open>short-text-question\<close> and
  \<open>text\<close> is accepted by \<open>validateBodyData\<close> whatever the payload: no schema is
  consulted.
\<close>

theorem C8_unknown_kind_passes_through:
  assumes "kind \<noteq> ''multiple-choice-question''"
    and "kind \<noteq> ''short-text-question''"
    and "kind \<noteq> ''text''"
  shows "validateBodyData kind payload = Success"
  using assms by (simp add: validateBodyData_def)

theorem C8_unknown_kind_witness:
  "validateBodyData ''essay'' (JArr [JNum 1, JNull]) = Success"
  using C8_unknown_kind_passes_through [of "''essay''" "JArr [JNum 1, JNull]"] by simp

text \<open>
  C2, as stated, fails: the three conditions of the testable property (2 to 4 options,
  option texts of at most 500 characters, \<open>correctOptionId\<close> among the option ids) hold
  of a payload whose question is the empty string, and the engine rejects it.
\<close>

theorem C2_three_conditions_counterexample:
  "spec_mcq_accepts
     (JObj [(''question'', JStr []),
            (''options'', JArr [JObj [(''id'', JStr ''a''), (''text'', JStr ''3'')],
                                JObj [(''id'', JStr ''b''), (''text'', JStr ''4'')]]),
            (''correctOptionId'', JStr ''b'')])
   \<and> validateBodyData ''multiple-choice-question''
     (JObj [(''question'', JStr []),
            (''options'', JArr [JObj [(''id'', JStr ''a''), (''text'', JStr ''3'')],
                                JObj [(''id'', JStr ''b''), (''text'', JStr ''4'')]]),
            (''correctOptionId'', JStr ''b'')])
     = Failure ''Invalid body_data for multiple-choice-question: question is required''"
  by (simp add: spec_mcq_accepts_def options_of_def validateBodyData_def safeParse_def
      McqBodySchema_def McqOptionSchema_def merge_status_def object_value_def array_value_def
      correctOption_matches_def)

text \<open>
  C2, amended. \<open>validateBodyData\<close> accepts a \<open>multiple-choice-question\<close> payload
  exactly when all rules of the kind hold: the question is a non-empty string, the
  optional image fields are absent, null or strings (\<open>imageFile\<close> non-empty), there are
  2 to 4 options, each with a non-empty string id and a string text of at most 500
  characters, and \<open>correctOptionId\<close> is a string equal to the id of one of the options.
  The three conditions of the testable property are therefore necessary for
  acceptance, not sufficient.
\<close>

theorem C2_mcq_accepts_iff_all_rules:
  "(validateBodyData ''multiple-choice-question'' p = Success \<longleftrightarrow> spec_mcq_rules_hold p)
   \<and> (validateBodyData ''multiple-choice-question'' p = Success \<longrightarrow> spec_mcq_accepts p)"
proof -
  have iff: "validateBodyData ''multiple-choice-question'' p = Success \<longleftrightarrow> spec_mcq_rules_hold p"
  proof (cases "spec_mcq_well_typed p")
    case True
    from validate_mcq_typed [OF True] show ?thesis
      by (simp add: spec_mcq_rules_hold_def True)
  next
    case False
    from validate_mcq_untyped [OF False] show ?thesis
      by (simp add: spec_mcq_rules_hold_def False)
  qed
  with rules_imply_spec_conditions show ?thesis by blast
qed

theorem C2_mcq_accepts_witness:
  "validateBodyData ''multiple-choice-question''
     (JObj [(''question'', JStr ''2+2?''),
            (''options'', JArr [JObj [(''id'', JStr ''a''), (''text'', JStr ''3'')],
                                JObj [(''id'', JStr ''b''), (''text'', JStr ''4'')]]),
            (''correctOptionId'', JStr ''b'')]) = Success
   \<and> spec_mcq_accepts
     (JObj [(''question'', JStr ''2+2?''),
            (''options'', JArr [JObj [(''id'', JStr ''a''), (''text'', JStr ''3'')],
                                JObj [(''id'', JStr ''b''), (''text'', JStr ''4'')]]),
            (''correctOptionId'', JStr ''b'')])"
proof -
  have "spec_mcq_rules_hold
     (JObj [(''question'', JStr ''2+2?''),
            (''options'', JArr [JObj [(''id'', JStr ''a''), (''text'', JStr ''3'')],
                                JObj [(''id'', JStr ''b''), (''text'', JStr ''4'')]]),
            (''correctOptionId'', JStr ''b'')])"
    by (simp add: spec_mcq_rules_hold_def spec_mcq_well_typed_def spec_option_well_typed_def
        spec_mcq_violations_def spec_option_violations_def options_of_def)
  with C2_mcq_accepts_iff_all_rules
    [of "JObj [(''question'', JStr ''2+2?''),
            (''options'', JArr [JObj [(''id'', JStr ''a''), (''text'', JStr ''3'')],
                                JObj [(''id'', JStr ''b''), (''text'', JStr ''4'')]]),
            (''correctOptionId'', JStr ''b'')]"]
  show ?thesis by blast
qed

text \<open>
  C3, as stated, fails: a payload without a question whose \<open>correctOptionId\<close> is not
  the id of any option violates two rules, and the reason names the missing field
  only. The refinement that compares \<open>correctOptionId\<close> with the option ids does not
  run once a field is missing or of the wrong type.
\<close>

theorem C3_missing_field_counterexample:
  "field (JObj [(''options'', JArr [JObj [(''id'', JStr ''a''), (''text'', JStr ''3'')],
                                     JObj [(''id'', JStr ''b''), (''text'', JStr ''4'')]]),
                (''correctOptionId'', JStr ''zz'')]) ''question'' = None
   \<and> \<not> correctOption_matches
        (JObj [(''options'', JArr [JObj [(''id'', JStr ''a''), (''text'', JStr ''3'')],
                                    JObj [(''id'', JStr ''b''), (''text'', JStr ''4'')]]),
               (''correctOptionId'', JStr ''zz'')])
   \<and> validateBodyData ''multiple-choice-question''
        (JObj [(''options'', JArr [JObj [(''id'', JStr ''a''), (''text'', JStr ''3'')],
                                    JObj [(''id'', JStr ''b''), (''text'', JStr ''4'')]]),
               (''correctOptionId'', JStr ''zz'')])
     = Failure ''Invalid body_data for multiple-choice-question: Required''"
  by (simp add: validateBodyData_def safeParse_def McqBodySchema_def McqOptionSchema_def
      merge_status_def object_value_def array_value_def correctOption_matches_def
      invalid_type_def)

text \<open>
  C3, amended. For every \<open>multiple-choice-question\<close> payload \<open>validateBodyData\<close>
  accepts when no rule is violated and otherwise returns one rejection, whose reason
  is the prefix followed by the messages of the issues, joined by \<open>; \<close>. The issues
  are, as a set, one for every violated rule on the presence, the type, the length or
  the count of a field, whatever else is wrong with the payload, and the message of
  the membership rule of \<open>correctOptionId\<close> exactly when no field is missing or of the
  wrong type and \<open>correctOptionId\<close> is the id of no option. Every issue occurs in the
  reason.
\<close>

theorem C3_reason_lists_every_violated_rule:
  "validateBodyData ''multiple-choice-question'' p =
     (if reported_issues p = [] then Success
      else Failure (''Invalid body_data for multiple-choice-question: ''
                    @ join ''; '' (reported_issues p)))
   \<and> (reported_issues p = [] \<longleftrightarrow> spec_mcq_rules_hold p)
   \<and> set (reported_issues p) = set (spec_mcq_field_issues p) \<union> set (spec_membership_issue p)
   \<and> ''correctOptionId must match the id of one of the provided options''
       \<notin> set (spec_mcq_field_issues p)
   \<and> (\<forall>m\<in>set (reported_issues p).
         \<exists>a b. validateBodyData ''multiple-choice-question'' p = Failure (a @ m @ b))"
proof -
  note result = validate_mcq_reported [of p]
  have accepted: "reported_issues p = [] \<longleftrightarrow> spec_mcq_rules_hold p"
  proof (cases "spec_mcq_well_typed p")
    case True
    from validate_mcq_typed [OF True] result show ?thesis
      by (simp add: spec_mcq_rules_hold_def True split: if_splits)
  next
    case False
    from validate_mcq_untyped [OF False] result show ?thesis
      by (simp add: spec_mcq_rules_hold_def False split: if_splits)
  qed
  have listed: "set (reported_issues p) = set (spec_mcq_field_issues p) \<union> set (spec_membership_issue p)"
    by (simp add: reported_issues_listing)
  have occurs: "\<forall>m\<in>set (reported_issues p).
         \<exists>a b. validateBodyData ''multiple-choice-question'' p = Failure (a @ m @ b)"
  proof
    fix m
    assume m: "m \<in> set (reported_issues p)"
    then have ne: "reported_issues p \<noteq> []" by auto
    from join_contains [OF m] obtain a b where "join ''; '' (reported_issues p) = a @ m @ b"
      by blast
    with result ne have "validateBodyData ''multiple-choice-question'' p =
        Failure ((''Invalid body_data for multiple-choice-question: '' @ a) @ m @ b)"
      by simp
    then show "\<exists>a b. validateBodyData ''multiple-choice-question'' p = Failure (a @ m @ b)"
      by blast
  qed
  show ?thesis
    by (rule conjI result accepted listed membership_not_field_issue occurs)+
qed

theorem C3_every_violated_rule_witness:
  "''At most 4 options are allowed''
     \<in> set (reported_issues
         (JObj [(''question'', JStr ''q''),
                (''options'', JArr [JObj [(''id'', JStr ''a''), (''text'', JStr ''1'')],
                                    JObj [(''id'', JStr ''b''), (''text'', JStr ''2'')],
                                    JObj [(''id'', JStr ''c''), (''text'', JStr ''3'')],
                                    JObj [(''id'', JStr ''d''), (''text'', JStr ''4'')],
                                    JObj [(''id'', JStr ''e''), (''text'', JStr ''5'')]]),
                (''correctOptionId'', JStr ''zz'')]))
   \<and> ''correctOptionId must match the id of one of the provided options''
     \<in> set (reported_issues
         (JObj [(''question'', JStr ''q''),
                (''options'', JArr [JObj [(''id'', JStr ''a''), (''text'', JStr ''1'')],
                                    JObj [(''id'', JStr ''b''), (''text'', JStr ''2'')],
                                    JObj [(''id'', JStr ''c''), (''text'', JStr ''3'')],
                                    JObj [(''id'', JStr ''d''), (''text'', JStr ''4'')],
                                    JObj [(''id'', JStr ''e''), (''text'', JStr ''5'')]]),
                (''correctOptionId'', JStr ''zz'')]))
   \<and> (\<exists>a b. validateBodyData ''multiple-choice-question''
         (JObj [(''question'', JStr ''q''),
                (''options'', JArr [JObj [(''id'', JStr ''a''), (''text'', JStr ''1'')],
                                    JObj [(''id'', JStr ''b''), (''text'', JStr ''2'')],
                                    JObj [(''id'', JStr ''c''), (''text'', JStr ''3'')],
                                    JObj [(''id'', JStr ''d''), (''text'', JStr ''4'')],
                                    JObj [(''id'', JStr ''e''), (''text'', JStr ''5'')]]),
                (''correctOptionId'', JStr ''zz'')])
       = Failure (a @ ''At most 4 options are allowed'' @ b))
   \<and> (\<exists>a b. validateBodyData ''multiple-choice-question''
         (JObj [(''question'', JStr ''q''),
                (''options'', JArr [JObj [(''id'', JStr ''a''), (''text'', JStr ''1'')],
                                    JObj [(''id'', JStr ''b''), (''text'', JStr ''2'')],
                                    JObj [(''id'', JStr ''c''), (''text'', JStr ''3'')],
                                    JObj [(''id'', JStr ''d''), (''text'', JStr ''4'')],
                                    JObj [(''id'', JStr ''e''), (''text'', JStr ''5'')]]),
                (''correctOptionId'', JStr ''zz'')])
       = Failure (a @ ''correctOptionId must match the id of one of the provided options'' @ b))
   \<and> ''At most 4 options are allowed''
     \<in> set (reported_issues
         (JObj [(''options'', JArr [JObj [(''id'', JStr []), (''text'', JStr ''1'')],
                                    JObj [(''id'', JStr ''b''), (''text'', JStr ''2'')],
                                    JObj [(''id'', JStr ''c''), (''text'', JStr ''3'')],
                                    JObj [(''id'', JStr ''d''), (''text'', JStr ''4'')],
                                    JObj [(''id'', JStr ''e''), (''text'', JStr ''5'')]]),
                (''correctOptionId'', JStr [])]))
   \<and> ''Option id is required''
     \<in> set (reported_issues
         (JObj [(''options'', JArr [JObj [(''id'', JStr []), (''text'', JStr ''1'')],
                                    JObj [(''id'', JStr ''b''), (''text'', JStr ''2'')],
                                    JObj [(''id'', JStr ''c''), (''text'', JStr ''3'')],
                                    JObj [(''id'', JStr ''d''), (''text'', JStr ''4'')],
                                    JObj [(''id'', JStr ''e''), (''text'', JStr ''5'')]]),
                (''correctOptionId'', JStr [])]))
   \<and> ''correctOptionId is required''
     \<in> set (reported_issues
         (JObj [(''options'', JArr [JObj [(''id'', JStr []), (''text'', JStr ''1'')],
                                    JObj [(''id'', JStr ''b''), (''text'', JStr ''2'')],
                                    JObj [(''id'', JStr ''c''), (''text'', JStr ''3'')],
                                    JObj [(''id'', JStr ''d''), (''text'', JStr ''4'')],
                                    JObj [(''id'', JStr ''e''), (''text'', JStr ''5'')]]),
                (''correctOptionId'', JStr [])]))
   \<and> ''correctOptionId must match the id of one of the provided options''
     \<notin> set (reported_issues
         (JObj [(''options'', JArr [JObj [(''id'', JStr []), (''text'', JStr ''1'')],
                                    JObj [(''id'', JStr ''b''), (''text'', JStr ''2'')],
                                    JObj [(''id'', JStr ''c''), (''text'', JStr ''3'')],
                                    JObj [(''id'', JStr ''d''), (''text'', JStr ''4'')],
                                    JObj [(''id'', JStr ''e''), (''text'', JStr ''5'')]]),
                (''correctOptionId'', JStr [])]))
   \<and> (\<exists>a b. validateBodyData ''multiple-choice-question''
         (JObj [(''options'', JArr [JObj [(''id'', JStr []), (''text'', JStr ''1'')],
                                    JObj [(''id'', JStr ''b''), (''text'', JStr ''2'')],
                                    JObj [(''id'', JStr ''c''), (''text'', JStr ''3'')],
                                    JObj [(''id'', JStr ''d''), (''text'', JStr ''4'')],
                                    JObj [(''id'', JStr ''e''), (''text'', JStr ''5'')]]),
                (''correctOptionId'', JStr [])])
       = Failure (a @ ''Option id is required'' @ b))"
proof -
  let ?typed = "JObj [(''question'', JStr ''q''),
                (''options'', JArr [JObj [(''id'', JStr ''a''), (''text'', JStr ''1'')],
                                    JObj [(''id'', JStr ''b''), (''text'', JStr ''2'')],
                                    JObj [(''id'', JStr ''c''), (''text'', JStr ''3'')],
                                    JObj [(''id'', JStr ''d''), (''text'', JStr ''4'')],
                                    JObj [(''id'', JStr ''e''), (''text'', JStr ''5'')]]),
                (''correctOptionId'', JStr ''zz'')]"
  let ?untyped = "JObj [(''options'', JArr [JObj [(''id'', JStr []), (''text'', JStr ''1'')],
                                    JObj [(''id'', JStr ''b''), (''text'', JStr ''2'')],
                                    JObj [(''id'', JStr ''c''), (''text'', JStr ''3'')],
                                    JObj [(''id'', JStr ''d''), (''text'', JStr ''4'')],
                                    JObj [(''id'', JStr ''e''), (''text'', JStr ''5'')]]),
                (''correctOptionId'', JStr [])]"
  note typed = C3_reason_lists_every_violated_rule [of ?typed]
  note untyped = C3_reason_lists_every_violated_rule [of ?untyped]
  have t_field: "spec_mcq_field_issues ?typed = [''At most 4 options are allowed'']"
    by (simp add: spec_optional_nonempty_def spec_optional_string_def)
  have t_member: "spec_membership_issue ?typed
      = [''correctOptionId must match the id of one of the provided options'']"
    by (simp add: spec_membership_issue_def spec_mcq_well_typed_def spec_option_well_typed_def
        options_of_def)
  have u_field: "spec_mcq_field_issues ?untyped
      = [''Required'', ''At most 4 options are allowed'', ''Option id is required'',
         ''correctOptionId is required'']"
    by (simp add: spec_optional_nonempty_def spec_optional_string_def invalid_type_def)
  have u_member: "spec_membership_issue ?untyped = []"
    by (simp add: spec_membership_issue_def spec_mcq_well_typed_def)
  from typed [THEN conjunct2, THEN conjunct2, THEN conjunct1] have t_set: "set (reported_issues ?typed)
      = {''At most 4 options are allowed'',
         ''correctOptionId must match the id of one of the provided options''}"
    unfolding t_field t_member by auto
  from untyped [THEN conjunct2, THEN conjunct2, THEN conjunct1] have u_set: "set (reported_issues ?untyped)
      = {''Required'', ''At most 4 options are allowed'', ''Option id is required'',
         ''correctOptionId is required''}"
    unfolding u_field u_member by auto
  have t1: "''At most 4 options are allowed'' \<in> set (reported_issues ?typed)"
    and t2: "''correctOptionId must match the id of one of the provided options''
             \<in> set (reported_issues ?typed)"
    unfolding t_set by simp_all
  have u1: "''At most 4 options are allowed'' \<in> set (reported_issues ?untyped)"
    and u2: "''Option id is required'' \<in> set (reported_issues ?untyped)"
    and u3: "''correctOptionId is required'' \<in> set (reported_issues ?untyped)"
    and u4: "''correctOptionId must match the id of one of the provided options''
             \<notin> set (reported_issues ?untyped)"
    unfolding u_set by simp_all
  note t_occ = typed [THEN conjunct2, THEN conjunct2, THEN conjunct2, THEN conjunct2]
  note u_occ = untyped [THEN conjunct2, THEN conjunct2, THEN conjunct2, THEN conjunct2]
  note o1 = t_occ [rule_format, OF t1] and o2 = t_occ [rule_format, OF t2]
    and o3 = u_occ [rule_format, OF u2]
  show ?thesis
    by (rule conjI t1 t2 o1 o2 u1 u2 u3 u4 o3)+
qed

section \<open>The tool handlers and the store: the claims\<close>







lemma getAll_rows:
  "activityQueries_getAll None activities lessonId = Inr rows \<Longrightarrow>
   set rows = {r \<in> set activities. DbActivity.lesson_id r = lessonId \<and> coalesce_active r}"
  by (auto simp add: activityQueries_getAll_def)

lemma list_activities_rows:
  "list_activities None activities lessonId = \<lparr>content = Stringify_activities rows, isError = False\<rparr>
   \<longleftrightarrow> activityQueries_getAll None activities lessonId = Inr rows"
  by (simp add: list_activities_def activityQueries_getAll_def)

lemma create_activity_stored:
  assumes "validateBodyData (CreateActivityInput.type args) (CreateActivityInput.body_data args) = Success"
    and "\<not> (CreateActivityInput.type args = ''text'' \<and> CreateActivityInput.is_summative args = Some True)"
  shows "create_activity None new_id activities args =
     (activities @ [\<lparr>activity_id = new_id,
                      lesson_id = CreateActivityInput.lesson_id args,
                      title = CreateActivityInput.title args,
                      type = CreateActivityInput.type args,
                      body_data = jsonb (CreateActivityInput.body_data args),
                      order_by = number_or_null (CreateActivityInput.order_by args),
                      active = Some True,
                      is_summative = boolean_or_false (CreateActivityInput.is_summative args),
                      notes = string_or_null (CreateActivityInput.notes args)\<rparr>],
      \<lparr>content = Stringify_activity
                   \<lparr>activity_id = new_id,
                    lesson_id = CreateActivityInput.lesson_id args,
                    title = CreateActivityInput.title args,
                    type = CreateActivityInput.type args,
                    body_data = jsonb (CreateActivityInput.body_data args),
                    order_by = number_or_null (CreateActivityInput.order_by args),
                    active = Some True,
                    is_summative = boolean_or_false (CreateActivityInput.is_summative args),
                    notes = string_or_null (CreateActivityInput.notes args)\<rparr>,
       isError = False\<rparr>)"
  using assms by (auto simp add: create_activity_def activityQueries_create_def Let_def)

lemma create_activity_success:
  assumes "create_activity fault new_id activities args = (activities', result)"
    and "\<not> isError result"
  shows "fault = None
    \<and> validateBodyData (CreateActivityInput.type args) (CreateActivityInput.body_data args) = Success
    \<and> \<not> (CreateActivityInput.type args = ''text'' \<and> CreateActivityInput.is_summative args = Some True)"
  using assms
  by (auto simp add: create_activity_def activityQueries_create_def Let_def
      split: if_splits validation.splits option.splits)

text \<open>
  C4. A \<open>create_activity\<close> call with type \<open>text\<close> and \<open>is_summative\<close> true returns the
  error result with the non-scorable message and leaves the table as it was, for every
  payload and whatever the store would have done: neither \<open>validateBodyData\<close> nor
  \<open>activityQueries.create\<close> contributes to the result.
\<close>

theorem C4_summative_text_rejected:
  assumes "CreateActivityInput.type args = ''text''"
    and "CreateActivityInput.is_summative args = Some True"
  shows "create_activity fault new_id activities args =
           (activities,
            \<lparr>content = Text ''text activities are non-scorable and cannot be summative'',
             isError = True\<rparr>)"
  using assms by (simp add: create_activity_def)

theorem C4_summative_text_witness:
  "validateBodyData ''text'' (JObj []) = Failure ''Invalid body_data for text: Required''
   \<and> create_activity None ''id1'' []
        \<lparr>CreateActivityInput.lesson_id = ''L'', title = ''t'', type = ''text'',
         body_data = JObj [], order_by = None, is_summative = Some True, notes = None\<rparr>
      = ([], \<lparr>content = Text ''text activities are non-scorable and cannot be summative'',
              isError = True\<rparr>)"
  using C4_summative_text_rejected
    [of "\<lparr>CreateActivityInput.lesson_id = ''L'', title = ''t'', type = ''text'',
         body_data = JObj [], order_by = None, is_summative = Some True, notes = None\<rparr>"
        None "''id1''" "[]"]
  by (simp add: validateBodyData_def safeParse_def TextBodySchema_def merge_status_def
      invalid_type_def)




text \<open>
  C9. The delete query removes no row and changes no field but \<open>active\<close>: the table
  keeps its length and, with \<open>active\<close> masked, its rows; rows with another id are
  untouched and the rows with the given id end up with \<open>active\<close> false. A listing of
  any lesson afterwards contains no row with that id, and no listing ever contains a
  row whose \<open>active\<close> is false.
\<close>

theorem C9_delete_is_soft:
  assumes "activityQueries_delete None activities activityId = Inr (activities', found)"
  shows "length activities' = length activities
       \<and> map (\<lambda>r. r\<lparr>active := None\<rparr>) activities' = map (\<lambda>r. r\<lparr>active := None\<rparr>) activities
       \<and> filter (\<lambda>r. activity_id r \<noteq> activityId) activities'
           = filter (\<lambda>r. activity_id r \<noteq> activityId) activities
       \<and> (\<forall>r\<in>set activities'. activity_id r = activityId \<longrightarrow> active r = Some False)
       \<and> (\<forall>lessonId rows. activityQueries_getAll None activities' lessonId = Inr rows \<longrightarrow>
            (\<forall>r\<in>set rows. activity_id r \<noteq> activityId \<and> active r \<noteq> Some False))
       \<and> (\<forall>lessonId rows.
            list_activities None activities' lessonId =
              \<lparr>content = Stringify_activities rows, isError = False\<rparr> \<longrightarrow>
            (\<forall>r\<in>set rows. activity_id r \<noteq> activityId \<and> active r \<noteq> Some False))"
proof -
  from assms have new: "activities' =
      map (\<lambda>r. if activity_id r = activityId then r\<lparr>active := Some False\<rparr> else r) activities"
    by (simp add: activityQueries_delete_def)
  have kept: "length activities' = length activities"
    by (simp add: new)
  have frame: "map (\<lambda>r. r\<lparr>active := None\<rparr>) activities' = map (\<lambda>r. r\<lparr>active := None\<rparr>) activities"
    by (simp add: new)
  have others: "filter (\<lambda>r. activity_id r \<noteq> activityId) activities'
           = filter (\<lambda>r. activity_id r \<noteq> activityId) activities"
    unfolding new by (induction activities) simp_all
  have flipped: "\<forall>r\<in>set activities'. activity_id r = activityId \<longrightarrow> active r = Some False"
  proof (intro ballI impI)
    fix r
    assume member: "r \<in> set activities'" and same: "activity_id r = activityId"
    from member obtain r0 where "r0 \<in> set activities"
      and r: "r = (if activity_id r0 = activityId then r0\<lparr>active := Some False\<rparr> else r0)"
      unfolding new by auto
    show "active r = Some False"
    proof (cases "activity_id r0 = activityId")
      case True
      with r show ?thesis by simp
    next
      case False
      with r have "activity_id r \<noteq> activityId" by simp
      with same show ?thesis by simp
    qed
  qed
  have hidden: "\<forall>lessonId rows. activityQueries_getAll None activities' lessonId = Inr rows \<longrightarrow>
            (\<forall>r\<in>set rows. activity_id r \<noteq> activityId \<and> active r \<noteq> Some False)"
  proof (intro allI impI ballI)
    fix lessonId rows r
    assume listed: "activityQueries_getAll None activities' lessonId = Inr rows"
      and "r \<in> set rows"
    with getAll_rows [OF listed] have r: "r \<in> set activities'" and live: "coalesce_active r"
      by simp_all
    from live have alive: "active r \<noteq> Some False"
      by (cases "active r") (simp_all add: coalesce_active_def)
    with flipped r have "activity_id r \<noteq> activityId"
      by metis
    with alive show "activity_id r \<noteq> activityId \<and> active r \<noteq> Some False"
      by simp
  qed
  have listed: "\<forall>lessonId rows.
            list_activities None activities' lessonId =
              \<lparr>content = Stringify_activities rows, isError = False\<rparr> \<longrightarrow>
            (\<forall>r\<in>set rows. activity_id r \<noteq> activityId \<and> active r \<noteq> Some False)"
  proof (intro allI impI)
    fix lessonId rows
    assume "list_activities None activities' lessonId =
              \<lparr>content = Stringify_activities rows, isError = False\<rparr>"
    then have "activityQueries_getAll None activities' lessonId = Inr rows"
      by (simp add: list_activities_rows)
    with hidden show "\<forall>r\<in>set rows. activity_id r \<noteq> activityId \<and> active r \<noteq> Some False"
      by simp
  qed
  show ?thesis
    by (rule conjI kept frame others flipped hidden listed)+
qed

theorem C9_delete_witness:
  "activityQueries_delete None
     [\<lparr>activity_id = ''a1'', lesson_id = ''L'', title = ''t'', type = ''text'',
       body_data = JObj [(''text'', JStr ''x'')], order_by = None, active = Some True,
       is_summative = False, notes = None\<rparr>,
      \<lparr>activity_id = ''a2'', lesson_id = ''L'', title = ''u'', type = ''text'',
       body_data = JObj [(''text'', JStr ''y'')], order_by = None, active = None,
       is_summative = False, notes = None\<rparr>] ''a1''
   = Inr ([\<lparr>activity_id = ''a1'', lesson_id = ''L'', title = ''t'', type = ''text'',
            body_data = JObj [(''text'', JStr ''x'')], order_by = None, active = Some False,
            is_summative = False, notes = None\<rparr>,
           \<lparr>activity_id = ''a2'', lesson_id = ''L'', title = ''u'', type = ''text'',
            body_data = JObj [(''text'', JStr ''y'')], order_by = None, active = None,
            is_summative = False, notes = None\<rparr>], True)
   \<and> activityQueries_getAll None
       [\<lparr>activity_id = ''a1'', lesson_id = ''L'', title = ''t'', type = ''text'',
         body_data = JObj [(''text'', JStr ''x'')], order_by = None, active = Some False,
         is_summative = False, notes = None\<rparr>,
        \<lparr>activity_id = ''a2'', lesson_id = ''L'', title = ''u'', type = ''text'',
         body_data = JObj [(''text'', JStr ''y'')], order_by = None, active = None,
         is_summative = False, notes = None\<rparr>] ''L''
     = Inr [\<lparr>activity_id = ''a2'', lesson_id = ''L'', title = ''u'', type = ''text'',
             body_data = JObj [(''text'', JStr ''y'')], order_by = None, active = None,
             is_summative = False, notes = None\<rparr>]"
proof -
  have del: "activityQueries_delete None
     [\<lparr>activity_id = ''a1'', lesson_id = ''L'', title = ''t'', type = ''text'',
       body_data = JObj [(''text'', JStr ''x'')], order_by = None, active = Some True,
       is_summative = False, notes = None\<rparr>,
      \<lparr>activity_id = ''a2'', lesson_id = ''L'', title = ''u'', type = ''text'',
       body_data = JObj [(''text'', JStr ''y'')], order_by = None, active = None,
       is_summative = False, notes = None\<rparr>] ''a1''
   = Inr ([\<lparr>activity_id = ''a1'', lesson_id = ''L'', title = ''t'', type = ''text'',
            body_data = JObj [(''text'', JStr ''x'')], order_by = None, active = Some False,
            is_summative = False, notes = None\<rparr>,
           \<lparr>activity_id = ''a2'', lesson_id = ''L'', title = ''u'', type = ''text'',
            body_data = JObj [(''text'', JStr ''y'')], order_by = None, active = None,
            is_summative = False, notes = None\<rparr>], True)"
    by (simp add: activityQueries_delete_def)
  have rows: "activityQueries_getAll None
       [\<lparr>activity_id = ''a1'', lesson_id = ''L'', title = ''t'', type = ''text'',
         body_data = JObj [(''text'', JStr ''x'')], order_by = None, active = Some False,
         is_summative = False, notes = None\<rparr>,
        \<lparr>activity_id = ''a2'', lesson_id = ''L'', title = ''u'', type = ''text'',
         body_data = JObj [(''text'', JStr ''y'')], order_by = None, active = None,
         is_summative = False, notes = None\<rparr>] ''L''
     = Inr [\<lparr>activity_id = ''a2'', lesson_id = ''L'', title = ''u'', type = ''text'',
             body_data = JObj [(''text'', JStr ''y'')], order_by = None, active = None,
             is_summative = False, notes = None\<rparr>]"
    by (simp add: activityQueries_getAll_def coalesce_active_def)
  note soft = C9_delete_is_soft [OF del]
  from soft del rows show ?thesis
    by (simp only: simp_thms)
qed

text \<open>
  C10. Whenever \<open>create_activity\<close> succeeds, the row it persisted holds null for an
  \<open>order_by\<close> of 0 and for empty \<open>notes\<close>, and false for an omitted \<open>is_summative\<close>;
  other values of the three arguments are stored as given.
\<close>

theorem C10_falsy_optionals_coerced:
  assumes "create_activity fault new_id activities args = (activities', result)"
    and "\<not> isError result"
  shows "\<exists>row. activities' = activities @ [row]
       \<and> content result = Stringify_activity row
       \<and> order_by row = (if CreateActivityInput.order_by args = Some 0 then None
                          else CreateActivityInput.order_by args)
       \<and> notes row = (if CreateActivityInput.notes args = Some [] then None
                       else CreateActivityInput.notes args)
       \<and> is_summative row = (CreateActivityInput.is_summative args = Some True)"
proof -
  from create_activity_success [OF assms] have f: "fault = None"
    and v: "validateBodyData (CreateActivityInput.type args) (CreateActivityInput.body_data args) = Success"
    and t: "\<not> (CreateActivityInput.type args = ''text'' \<and> CreateActivityInput.is_summative args = Some True)"
    by simp_all
  from create_activity_stored [OF v t, of new_id activities] assms(1)
  show ?thesis
    by (auto simp add: f number_or_null_def string_or_null_def boolean_or_false_def
        split: option.splits)
qed

theorem C10_falsy_optionals_witness:
  "create_activity None ''id1'' []
     \<lparr>CreateActivityInput.lesson_id = ''L'', title = ''t'', type = ''text'',
      body_data = JObj [(''text'', JStr ''answer'')],
      order_by = Some 0, is_summative = None, notes = Some []\<rparr>
   = ([\<lparr>activity_id = ''id1'', lesson_id = ''L'', title = ''t'', type = ''text'',
        body_data = JObj [(''text'', JStr ''answer'')], order_by = None, active = Some True,
        is_summative = False, notes = None\<rparr>],
      \<lparr>content = Stringify_activity
         \<lparr>activity_id = ''id1'', lesson_id = ''L'', title = ''t'', type = ''text'',
          body_data = JObj [(''text'', JStr ''answer'')], order_by = None, active = Some True,
          is_summative = False, notes = None\<rparr>,
       isError = False\<rparr>)
   \<and> (\<exists>row. [\<lparr>activity_id = ''id1'', lesson_id = ''L'', title = ''t'', type = ''text'',
        body_data = JObj [(''text'', JStr ''answer'')], order_by = None, active = Some True,
        is_summative = False, notes = None\<rparr>] = [] @ [row]
        \<and> order_by row = None \<and> notes row = None \<and> is_summative row = False)"
proof -
  have run: "create_activity None ''id1'' []
     \<lparr>CreateActivityInput.lesson_id = ''L'', title = ''t'', type = ''text'',
      body_data = JObj [(''text'', JStr ''answer'')],
      order_by = Some 0, is_summative = None, notes = Some []\<rparr>
   = ([\<lparr>activity_id = ''id1'', lesson_id = ''L'', title = ''t'', type = ''text'',
        body_data = JObj [(''text'', JStr ''answer'')], order_by = None, active = Some True,
        is_summative = False, notes = None\<rparr>],
      \<lparr>content = Stringify_activity
         \<lparr>activity_id = ''id1'', lesson_id = ''L'', title = ''t'', type = ''text'',
          body_data = JObj [(''text'', JStr ''answer'')], order_by = None, active = Some True,
          is_summative = False, notes = None\<rparr>,
       isError = False\<rparr>)"
    by (simp add: create_activity_def validateBodyData_def safeParse_def TextBodySchema_def
        merge_status_def object_value_def activityQueries_create_def number_or_null_def
        string_or_null_def boolean_or_false_def Let_def)
  from C10_falsy_optionals_coerced [OF run] run show ?thesis
    by simp
qed

section \<open>The key gate and the session routes: the claims\<close>

lemma providedKey_bearer:
  "k \<noteq> [] \<Longrightarrow> authorization req = Some (''Bearer '' @ k) \<Longrightarrow> providedKey req = Some k"
  by (simp add: providedKey_def Let_def)

lemma shutdown_loop_filter:
  "shutdown_loop fires es sessions = filter (\<lambda>e. fst e \<notin> fst ` set es) sessions"
proof (induction es arbitrary: sessions)
  case Nil
  then show ?case by simp
next
  case (Cons e es)
  have "AList.delete (fst e) (if fires (fst e) then onclose (Some (fst e)) sessions else sessions)
        = AList.delete (fst e) sessions"
    by (simp add: onclose_def AList.delete_idem)
  then show ?case
    by (auto simp add: Cons.IH AList.delete_eq case_prod_unfold intro: filter_cong)
qed

text \<open>
  C6. The gate decides before the route handler runs. Without a usable credential
  (in particular with neither header present) the answer is 401; with a credential
  that differs from the service key it is 403; in both cases the registry is
  untouched and the handler contributes nothing. With the service key the request
  reaches the handler of its method. The credential is the \<open>Authorization\<close> header
  without its \<open>Bearer\<close> prefix when that is not empty, otherwise the \<open>x-mcp-key\<close>
  header.
\<close>

theorem C6_key_gate_before_routes:
  "(\<not> truthy (providedKey req) \<longrightarrow>
      mcp_route serviceKey m run fresh sessions req =
        (sessions, Json 401
          (JObj [(''error'', JStr ''Unauthorized''),
                 (''message'',
                  JStr ''MCP service key required. Provide via Authorization header or x-mcp-key header.'')])))
   \<and> (truthy (providedKey req) \<and> providedKey req \<noteq> Some serviceKey \<longrightarrow>
      mcp_route serviceKey m run fresh sessions req =
        (sessions, Json 403
          (JObj [(''error'', JStr ''Forbidden''), (''message'', JStr ''Invalid MCP service key'')])))
   \<and> (truthy (providedKey req) \<and> providedKey req = Some serviceKey \<longrightarrow>
      mcp_route serviceKey m run fresh sessions req =
        (case m of
           POST \<Rightarrow> post_mcp run fresh sessions req
         | GET \<Rightarrow> get_mcp run sessions req
         | DELETE \<Rightarrow> delete_mcp run sessions req))
   \<and> (authorization req = None \<and> x_mcp_key req = None \<longrightarrow> \<not> truthy (providedKey req))
   \<and> (authorization req = None \<longrightarrow> providedKey req = x_mcp_key req)
   \<and> (\<forall>k. k \<noteq> [] \<and> authorization req = Some (''Bearer '' @ k) \<longrightarrow> providedKey req = Some k)"
proof -
  have r401: "\<not> truthy (providedKey req) \<longrightarrow>
      mcp_route serviceKey m run fresh sessions req =
        (sessions, Json 401
          (JObj [(''error'', JStr ''Unauthorized''),
                 (''message'',
                  JStr ''MCP service key required. Provide via Authorization header or x-mcp-key header.'')]))"
    by (simp add: mcp_route_def validateMcpKey_def)
  have r403: "truthy (providedKey req) \<and> providedKey req \<noteq> Some serviceKey \<longrightarrow>
      mcp_route serviceKey m run fresh sessions req =
        (sessions, Json 403
          (JObj [(''error'', JStr ''Forbidden''), (''message'', JStr ''Invalid MCP service key'')]))"
    by (simp add: mcp_route_def validateMcpKey_def)
  have pass: "truthy (providedKey req) \<and> providedKey req = Some serviceKey \<longrightarrow>
      mcp_route serviceKey m run fresh sessions req =
        (case m of
           POST \<Rightarrow> post_mcp run fresh sessions req
         | GET \<Rightarrow> get_mcp run sessions req
         | DELETE \<Rightarrow> delete_mcp run sessions req)"
    by (auto simp add: mcp_route_def validateMcpKey_def)
  have absent: "authorization req = None \<and> x_mcp_key req = None \<longrightarrow> \<not> truthy (providedKey req)"
    by (simp add: providedKey_def truthy_def)
  have header: "authorization req = None \<longrightarrow> providedKey req = x_mcp_key req"
    by (simp add: providedKey_def)
  have bearer: "\<forall>k. k \<noteq> [] \<and> authorization req = Some (''Bearer '' @ k) \<longrightarrow> providedKey req = Some k"
    using providedKey_bearer by blast
  show ?thesis
    by (rule conjI r401 r403 pass absent header bearer)+
qed

theorem C6_key_gate_witness:
  "mcp_route ''key'' GET \<lparr>assigned = None, closed = False, threw = False, headersSent = True\<rparr>
     \<lparr>server = 1, transport = 1\<rparr> [(''s1'', \<lparr>server = 0, transport = 0\<rparr>)]
     \<lparr>authorization = None, x_mcp_key = None, mcp_session_id = Some ''s1''\<rparr>
   = ([(''s1'', \<lparr>server = 0, transport = 0\<rparr>)],
      Json 401
        (JObj [(''error'', JStr ''Unauthorized''),
               (''message'',
                JStr ''MCP service key required. Provide via Authorization header or x-mcp-key header.'')]))
   \<and> mcp_route ''key'' GET \<lparr>assigned = None, closed = False, threw = False, headersSent = True\<rparr>
     \<lparr>server = 1, transport = 1\<rparr> [(''s1'', \<lparr>server = 0, transport = 0\<rparr>)]
     \<lparr>authorization = Some ''Bearer wrong'', x_mcp_key = None, mcp_session_id = Some ''s1''\<rparr>
   = ([(''s1'', \<lparr>server = 0, transport = 0\<rparr>)],
      Json 403 (JObj [(''error'', JStr ''Forbidden''), (''message'', JStr ''Invalid MCP service key'')]))
   \<and> mcp_route ''key'' GET \<lparr>assigned = None, closed = False, threw = False, headersSent = True\<rparr>
     \<lparr>server = 1, transport = 1\<rparr> [(''s1'', \<lparr>server = 0, transport = 0\<rparr>)]
     \<lparr>authorization = None, x_mcp_key = Some ''key'', mcp_session_id = Some ''s1''\<rparr>
   = ([(''s1'', \<lparr>server = 0, transport = 0\<rparr>)], Transport_response)"
proof -
  have none: "\<not> truthy (providedKey \<lparr>authorization = None, x_mcp_key = None, mcp_session_id = Some ''s1''\<rparr>)"
    by (simp add: providedKey_def truthy_def)
  have wrong: "truthy (providedKey \<lparr>authorization = Some ''Bearer wrong'', x_mcp_key = None,
                                    mcp_session_id = Some ''s1''\<rparr>)
       \<and> providedKey \<lparr>authorization = Some ''Bearer wrong'', x_mcp_key = None,
                       mcp_session_id = Some ''s1''\<rparr> \<noteq> Some ''key''"
    by (simp add: providedKey_def truthy_def)
  have right: "truthy (providedKey \<lparr>authorization = None, x_mcp_key = Some ''key'',
                                    mcp_session_id = Some ''s1''\<rparr>)
       \<and> providedKey \<lparr>authorization = None, x_mcp_key = Some ''key'',
                       mcp_session_id = Some ''s1''\<rparr> = Some ''key''"
    by (simp add: providedKey_def truthy_def)
  have handled: "get_mcp \<lparr>assigned = None, closed = False, threw = False, headersSent = True\<rparr>
       [(''s1'', \<lparr>server = 0, transport = 0\<rparr>)]
       \<lparr>authorization = None, x_mcp_key = Some ''key'', mcp_session_id = Some ''s1''\<rparr>
     = ([(''s1'', \<lparr>server = 0, transport = 0\<rparr>)], Transport_response)"
    by (simp add: get_mcp_def sessions_has_def handleRequest_def settle_def)
  note gate = C6_key_gate_before_routes
    [of _ "''key''" GET "\<lparr>assigned = None, closed = False, threw = False, headersSent = True\<rparr>"
        "\<lparr>server = 1, transport = 1\<rparr>" "[(''s1'', \<lparr>server = 0, transport = 0\<rparr>)]"]
  from gate [of "\<lparr>authorization = None, x_mcp_key = None, mcp_session_id = Some ''s1''\<rparr>"] none
  have a: "mcp_route ''key'' GET \<lparr>assigned = None, closed = False, threw = False, headersSent = True\<rparr>
     \<lparr>server = 1, transport = 1\<rparr> [(''s1'', \<lparr>server = 0, transport = 0\<rparr>)]
     \<lparr>authorization = None, x_mcp_key = None, mcp_session_id = Some ''s1''\<rparr>
   = ([(''s1'', \<lparr>server = 0, transport = 0\<rparr>)],
      Json 401
        (JObj [(''error'', JStr ''Unauthorized''),
               (''message'',
                JStr ''MCP service key required. Provide via Authorization header or x-mcp-key header.'')]))"
    by (simp only: simp_thms)
  from gate [of "\<lparr>authorization = Some ''Bearer wrong'', x_mcp_key = None, mcp_session_id = Some ''s1''\<rparr>"]
    wrong
  have b: "mcp_route ''key'' GET \<lparr>assigned = None, closed = False, threw = False, headersSent = True\<rparr>
     \<lparr>server = 1, transport = 1\<rparr> [(''s1'', \<lparr>server = 0, transport = 0\<rparr>)]
     \<lparr>authorization = Some ''Bearer wrong'', x_mcp_key = None, mcp_session_id = Some ''s1''\<rparr>
   = ([(''s1'', \<lparr>server = 0, transport = 0\<rparr>)],
      Json 403 (JObj [(''error'', JStr ''Forbidden''), (''message'', JStr ''Invalid MCP service key'')]))"
    by (simp only: simp_thms)
  from gate [of "\<lparr>authorization = None, x_mcp_key = Some ''key'', mcp_session_id = Some ''s1''\<rparr>"]
    right handled
  have c: "mcp_route ''key'' GET \<lparr>assigned = None, closed = False, threw = False, headersSent = True\<rparr>
     \<lparr>server = 1, transport = 1\<rparr> [(''s1'', \<lparr>server = 0, transport = 0\<rparr>)]
     \<lparr>authorization = None, x_mcp_key = Some ''key'', mcp_session_id = Some ''s1''\<rparr>
   = ([(''s1'', \<lparr>server = 0, transport = 0\<rparr>)], Transport_response)"
    by (simp add: truthy_def)
  from a b c show ?thesis by (simp only: simp_thms)
qed

lemma unknown_token_get_delete:
  assumes "mcp_session_id req = Some sid" and "\<not> sessions_has sessions sid"
  shows "get_mcp run sessions req = (sessions, invalid_session)"
    and "delete_mcp run sessions req = (sessions, invalid_session)"
  using assms by (simp_all add: get_mcp_def delete_mcp_def)

lemma unknown_token_post_as_absent:
  assumes "mcp_session_id req = Some sid" and "\<not> sessions_has sessions sid"
  shows "post_mcp run fresh sessions req = post_mcp run fresh sessions (req\<lparr>mcp_session_id := None\<rparr>)"
  using assms by (simp add: post_mcp_def)

text \<open>
  C1. On the POST route a session id that is not in the registry is treated like no
  session id: the handler builds a new transport and engine and hands the request to
  them, and when the handshake assigns an id the new session is registered. Here the
  registry is empty, the request carries the id \<open>stale\<close> and a valid key, and the
  transport assigns \<open>fresh\<close>: the answer is the transport's, not the 400 of the GET
  and DELETE routes, and \<open>fresh\<close> is registered.
\<close>

theorem C1_post_unknown_token_registers_session:
  "\<not> sessions_has [] ''stale''
   \<and> mcp_route ''key'' POST
       \<lparr>assigned = Some ''fresh'', closed = False, threw = False, headersSent = True\<rparr>
       \<lparr>server = 1, transport = 1\<rparr> []
       \<lparr>authorization = Some ''Bearer key'', x_mcp_key = None, mcp_session_id = Some ''stale''\<rparr>
     = ([(''fresh'', \<lparr>server = 1, transport = 1\<rparr>)], Transport_response)
   \<and> mcp_route ''key'' GET
       \<lparr>assigned = Some ''fresh'', closed = False, threw = False, headersSent = True\<rparr>
       \<lparr>server = 1, transport = 1\<rparr> []
       \<lparr>authorization = Some ''Bearer key'', x_mcp_key = None, mcp_session_id = Some ''stale''\<rparr>
     = ([], Json 400 (JObj [(''error'', JStr ''Invalid or missing session ID'')]))"
  by (simp add: mcp_route_def validateMcpKey_def providedKey_def truthy_def post_mcp_def
      get_mcp_def sessions_has_def handleRequest_def onsessioninitialized_def settle_def
      invalid_session_def)

text \<open>
  C5. Evicting a session id a second time changes nothing and cannot fail: \<open>onclose\<close>
  after the DELETE route's own \<open>sessions.delete\<close>, or that \<open>delete\<close> after \<open>onclose\<close>
  already ran, leaves the registry that one eviction leaves. The id is then absent,
  every other id resolves as before, the DELETE route answers with the transport's
  response whether or not \<open>onclose\<close> fired during the request, and \<open>shutdown\<close> empties
  the registry whichever engines fire \<open>onclose\<close> when closed.
\<close>

theorem C5_double_eviction_is_noop:
  assumes "sid \<noteq> []"
  shows "onclose (Some sid) (AList.delete sid sessions) = AList.delete sid sessions
       \<and> AList.delete sid (onclose (Some sid) sessions) = AList.delete sid sessions
       \<and> onclose (Some sid) (onclose (Some sid) sessions) = onclose (Some sid) sessions
       \<and> \<not> sessions_has (onclose (Some sid) (AList.delete sid sessions)) sid
       \<and> (\<forall>other. other \<noteq> sid \<longrightarrow>
             map_of (onclose (Some sid) (AList.delete sid sessions)) other = map_of sessions other)
       \<and> (sessions_has sessions sid \<and> mcp_session_id req = Some sid
            \<and> assigned run = None \<and> \<not> threw run \<longrightarrow>
             delete_mcp run sessions req = (AList.delete sid sessions, Transport_response))
       \<and> shutdown fires sessions = []"
proof -
  have twice: "onclose (Some sid) (AList.delete sid sessions) = AList.delete sid sessions"
    using assms by (simp add: onclose_def AList.delete_idem)
  have swapped: "AList.delete sid (onclose (Some sid) sessions) = AList.delete sid sessions"
    using assms by (simp add: onclose_def AList.delete_idem)
  have idem: "onclose (Some sid) (onclose (Some sid) sessions) = onclose (Some sid) sessions"
    using assms by (simp add: onclose_def AList.delete_idem)
  have gone: "\<not> sessions_has (onclose (Some sid) (AList.delete sid sessions)) sid"
    unfolding twice by (simp add: sessions_has_def AList.delete_conv)
  have others: "\<forall>other. other \<noteq> sid \<longrightarrow>
      map_of (onclose (Some sid) (AList.delete sid sessions)) other = map_of sessions other"
    unfolding twice by simp
  have route: "sessions_has sessions sid \<and> mcp_session_id req = Some sid
            \<and> assigned run = None \<and> \<not> threw run \<longrightarrow>
             delete_mcp run sessions req = (AList.delete sid sessions, Transport_response)"
    using assms swapped
    by (auto simp add: delete_mcp_def sessions_has_def handleRequest_def Let_def)
  have all: "shutdown fires sessions = []"
    by (simp add: shutdown_def shutdown_loop_filter)
  show ?thesis
    by (rule conjI twice swapped idem gone others route all)+
qed

theorem C5_double_eviction_witness:
  "delete_mcp \<lparr>assigned = None, closed = True, threw = False, headersSent = True\<rparr>
     [(''s1'', \<lparr>server = 0, transport = 0\<rparr>), (''s2'', \<lparr>server = 1, transport = 1\<rparr>)]
     \<lparr>authorization = Some ''Bearer key'', x_mcp_key = None, mcp_session_id = Some ''s1''\<rparr>
   = ([(''s2'', \<lparr>server = 1, transport = 1\<rparr>)], Transport_response)
   \<and> onclose (Some ''s1'') [(''s2'', \<lparr>server = 1, transport = 1\<rparr>)]
     = [(''s2'', \<lparr>server = 1, transport = 1\<rparr>)]
   \<and> shutdown (\<lambda>sid. True)
       [(''s1'', \<lparr>server = 0, transport = 0\<rparr>), (''s2'', \<lparr>server = 1, transport = 1\<rparr>)] = []"
proof -
  have ne: "''s1'' \<noteq> []" by simp
  note noop = C5_double_eviction_is_noop
    [OF ne, of "[(''s1'', \<lparr>server = 0, transport = 0\<rparr>), (''s2'', \<lparr>server = 1, transport = 1\<rparr>)]"
       "\<lparr>authorization = Some ''Bearer key'', x_mcp_key = None, mcp_session_id = Some ''s1''\<rparr>"
       "\<lparr>assigned = None, closed = True, threw = False, headersSent = True\<rparr>"
       "\<lambda>sid. True"]
  then show ?thesis
    by (simp add: sessions_has_def)
qed

end
